theory Spec2Isabelle
  imports Main "HOL-Library.AList"
begin

section \<open>The simulation configuration manager of ateam-tools\<close>

text \<open>
  This theory embeds \<^verbatim>\<open>src/ateam/sim/setup/sim_manager.py\<close>: the class
  \<^verbatim>\<open>SimManager\<close> and the module functions \<^verbatim>\<open>nodes_net_name\<close>,
  \<^verbatim>\<open>edges_net_pair\<close> and \<^verbatim>\<open>update_csv\<close>.

  Conventions of the embedding.
  \<^item> A Python \<^verbatim>\<open>dict\<close> is an association list with distinct keys in insertion order
    (the order Python 3.7 guarantees); \<^verbatim>\<open>d[k] = v\<close> is \<open>AList.update k v d\<close>, which
    overwrites in place or appends.
  \<^item> Every \<^verbatim>\<open>raise\<close>, failed \<^verbatim>\<open>assert\<close>, failed subscript and failed tuple
    unpacking is a value of type \<open>error\<close>, returned as \<open>Inl\<close>.
  \<^item> A method that mutates the manager or the disk returns the outcome together with the
    manager and the disk as they are when the method returns or raises.
  \<^item> The disk is keyed by absolute, normalised POSIX paths; a path that the caller gives
    is resolved (\<open>os_abspath\<close>) where it is handed to the operating system.
\<close>

subsection \<open>Python exceptions\<close>

datatype error =
    Exception string
  | NotImplementedError
  | ValueError
  | KeyError string
  | IndexError
  | AssertionError
  | FileNotFoundError string
  | FileExistsError string
  | NotADirectoryError string
  | IsADirectoryError string
  | UnsupportedContent string
  | RecursionError

subsection \<open>Strings and paths\<close>

text \<open>\<^verbatim>\<open>s.split(c)\<close> for a one-character separator: never empty, one more piece than
  there are separators.\<close>

fun split_on :: "char \<Rightarrow> string \<Rightarrow> string list" where
  "split_on c [] = [[]]"
| "split_on c (x # xs) =
     (if x = c then [] # split_on c xs
      else (case split_on c xs of
              [] \<Rightarrow> [[x]]
            | w # ws \<Rightarrow> (x # w) # ws))"

text \<open>\<^verbatim>\<open>os.path.basename(p)\<close> (posixpath): what follows the last slash.\<close>

definition basename :: "string \<Rightarrow> string" where
  "basename p = rev (takeWhile (\<lambda>c. c \<noteq> CHR ''/'') (rev p))"

text \<open>\<^verbatim>\<open>os.path.join(a, b)\<close> (posixpath, two arguments).\<close>

definition path_join :: "string \<Rightarrow> string \<Rightarrow> string" where
  "path_join a b =
     (if b \<noteq> [] \<and> hd b = CHR ''/'' then b
      else if a = [] \<or> last a = CHR ''/'' then a @ b
      else a @ ''/'' @ b)"

subsection \<open>File dictionaries and the name conventions\<close>

text \<open>A nodes or edges file dictionary of the config: keys such as \<^verbatim>\<open>nodes_file\<close>,
  \<^verbatim>\<open>node_types_file\<close>, \<^verbatim>\<open>edges_file\<close>, \<^verbatim>\<open>edge_types_file\<close>, each with a path.\<close>

type_synonym filedict = "(string \<times> string) list"

text \<open>\<^verbatim>\<open>d[k]\<close>: a missing key raises \<^verbatim>\<open>KeyError\<close>.\<close>

definition getitem :: "(string \<times> 'v) list \<Rightarrow> string \<Rightarrow> error + 'v" where
  "getitem d k = (case map_of d k of None \<Rightarrow> Inl (KeyError k) | Some v \<Rightarrow> Inr v)"

text \<open>\<^verbatim>\<open>nodes_net_name\<close>: the first underscore-delimited token of the nodes file's base
  name.  \<^verbatim>\<open>split\<close> never returns an empty list, so \<^verbatim>\<open>[0]\<close> cannot fail.\<close>

definition nodes_net_name :: "filedict \<Rightarrow> error + string" where
  "nodes_net_name nodeset =
     (case getitem nodeset ''nodes_file'' of
        Inl e \<Rightarrow> Inl e
      | Inr nodes_file \<Rightarrow> Inr (hd (split_on CHR ''_'' (basename nodes_file))))"

text \<open>\<^verbatim>\<open>edges_net_pair\<close>: \<^verbatim>\<open>src, dest = os.path.basename(edge_file).split('_')[0:2]\<close>.
  The slice has one or two elements; unpacking one element into two names raises
  \<^verbatim>\<open>ValueError\<close>.\<close>

definition edges_net_pair :: "filedict \<Rightarrow> error + (string \<times> string)" where
  "edges_net_pair edgeset =
     (case getitem edgeset ''edges_file'' of
        Inl e \<Rightarrow> Inl e
      | Inr edge_file \<Rightarrow>
          (case take 2 (split_on CHR ''_'' (basename edge_file)) of
             [src, dest] \<Rightarrow> Inr (src, dest)
           | _ \<Rightarrow> Inl ValueError))"

subsection \<open>The disk\<close>

text \<open>The disk is typed: a regular file holds a JSON document (a config), a table of csv
  records (a list of rows, each a list of fields; quoting and the delimiter are below the
  model) or data written by the simulation framework.  A file that the manager itself
  opens for writing needs its folder (\<open>open_for_writing\<close>); the writers of the config
  store and of the framework are given by their result.\<close>

datatype json =
    JNull
  | JBool bool
  | JInt int
  | JStr string
  | JList "json list"
  | JObj "(string \<times> json) list"

type_synonym document = "(string \<times> json) list"

datatype content =
    JsonDoc document
  | CsvRows "string list list"
  | Binary string

datatype entry = Dir | File content

type_synonym disk = "string \<Rightarrow> entry option"

text \<open>\<^verbatim>\<open>os.path.exists\<close> and \<^verbatim>\<open>os.path.isfile\<close>.\<close>

definition path_exists :: "disk \<Rightarrow> string \<Rightarrow> bool" where
  "path_exists d p \<longleftrightarrow> d p \<noteq> None"

definition path_isfile :: "disk \<Rightarrow> string \<Rightarrow> bool" where
  "path_isfile d p \<longleftrightarrow> (case d p of Some (File c) \<Rightarrow> True | _ \<Rightarrow> False)"

text \<open>\<^verbatim>\<open>os.path.dirname\<close> (posixpath): the head up to the last slash, its trailing slashes
  stripped unless it consists of slashes only.\<close>

definition dirname :: "string \<Rightarrow> string" where
  "dirname p =
     (let head = take (length p - length (basename p)) p
      in if head \<noteq> [] \<and> (\<exists>c \<in> set head. c \<noteq> CHR ''/'')
         then rev (dropWhile (\<lambda>c. c = CHR ''/'') (rev head))
         else head)"

text \<open>\<open>under dir q\<close>: \<open>q\<close> is \<open>dir\<close> or lies inside it.\<close>

definition under :: "string \<Rightarrow> string \<Rightarrow> bool" where
  "under dir q \<longleftrightarrow> q = dir \<or> take (length dir + 1) q = dir @ ''/''"

text \<open>The proper ancestors of a path below the root.\<close>

definition ancestors :: "string \<Rightarrow> string list" where
  "ancestors p = map (\<lambda>i. take i p) (filter (\<lambda>i. p ! i = CHR ''/'') [1..<length p])"

text \<open>\<^verbatim>\<open>os.makedirs(p)\<close>: fails when \<open>p\<close> exists or an ancestor is a regular file,
  otherwise creates \<open>p\<close> and every missing ancestor.\<close>

definition makedirs :: "string \<Rightarrow> disk \<Rightarrow> error + disk" where
  "makedirs p d =
     (if p = [] then Inl (FileNotFoundError p)
      else if d p \<noteq> None then Inl (FileExistsError p)
      else if \<exists>a \<in> set (ancestors p). path_isfile d a then Inl (NotADirectoryError p)
      else Inr (\<lambda>q. if q = p \<or> (q \<in> set (ancestors p) \<and> d q = None) then Some Dir else d q))"

text \<open>\<^verbatim>\<open>shutil.rmtree(p)\<close>: removes the directory \<open>p\<close> and all below it; fails when \<open>p\<close>
  is missing or is not a directory.  With \<^verbatim>\<open>ignore_errors=True\<close> the failure is dropped
  and the disk is left as it is.\<close>

definition rmtree :: "string \<Rightarrow> disk \<Rightarrow> error + disk" where
  "rmtree p d =
     (case d p of
        None \<Rightarrow> Inl (FileNotFoundError p)
      | Some (File c) \<Rightarrow> Inl (NotADirectoryError p)
      | Some Dir \<Rightarrow> Inr (\<lambda>q. if under p q then None else d q))"

definition rmtree_ignore_errors :: "string \<Rightarrow> disk \<Rightarrow> disk" where
  "rmtree_ignore_errors p d = (case rmtree p d of Inl e \<Rightarrow> d | Inr d' \<Rightarrow> d')"

text \<open>\<^verbatim>\<open>shutil.copytree(src, dst)\<close>: \<open>src\<close> must be a directory and \<open>dst\<close> must not
  exist.  The entries of \<open>src\<close> are listed, then \<open>dst\<close> is created with its ancestors and
  receives what \<open>src\<close> held.  When \<open>dst\<close> lies inside a directory that \<open>src\<close> already
  holds, the copy of that directory meets the new \<open>dst\<close> and descends into it without end:
  the call raises \<^verbatim>\<open>RecursionError\<close>; the tree it has built by then is not modelled.\<close>

definition first_below :: "string \<Rightarrow> string \<Rightarrow> string" where
  "first_below src dst =
     src @ ''/'' @ takeWhile (\<lambda>c. c \<noteq> CHR ''/'') (drop (length src + 1) dst)"

definition copytree :: "string \<Rightarrow> string \<Rightarrow> disk \<Rightarrow> error + disk" where
  "copytree src dst d =
     (case d src of
        None \<Rightarrow> Inl (FileNotFoundError src)
      | Some (File c) \<Rightarrow> Inl (NotADirectoryError src)
      | Some Dir \<Rightarrow>
          (case makedirs dst d of
             Inl e \<Rightarrow> Inl e
           | Inr d1 \<Rightarrow>
               (if under src dst \<and> d (first_below src dst) = Some Dir then Inl RecursionError
                else Inr (\<lambda>q. if under dst q \<and> q \<noteq> dst then d (src @ drop (length dst) q)
                              else d1 q))))"

text \<open>\<^verbatim>\<open>open(p, 'w')\<close>: fails on a directory and on a missing folder; the root is
  always there.\<close>

definition open_for_writing :: "string \<Rightarrow> disk \<Rightarrow> error option" where
  "open_for_writing p d =
     (if d p = Some Dir then Some (IsADirectoryError p)
      else if dirname p \<noteq> ''/'' \<and> d (dirname p) \<noteq> Some Dir then
        Some (if path_isfile d (dirname p) then NotADirectoryError p else FileNotFoundError p)
      else None)"

text \<open>\<^verbatim>\<open>shutil.copy2(src, dst)\<close>: into the directory \<open>dst\<close> under the source's base
  name, or onto the path \<open>dst\<close> when it is not a directory.\<close>

definition copy2 :: "string \<Rightarrow> string \<Rightarrow> disk \<Rightarrow> error + disk" where
  "copy2 src dst d =
     (case d src of
        Some (File c) \<Rightarrow>
          (if d dst = Some Dir then Inr (d(path_join dst (basename src) \<mapsto> File c))
           else Inr (d(dst \<mapsto> File c)))
      | _ \<Rightarrow> Inl (FileNotFoundError src))"

subsection \<open>The csv module: \<^verbatim>\<open>DictReader\<close> and \<^verbatim>\<open>DictWriter\<close>\<close>

text \<open>A row dictionary of \<^verbatim>\<open>csv.DictReader\<close>.  Its keys are the field names and, for
  a row longer than the header, the rest key \<^verbatim>\<open>None\<close>; its values are fields, the
  rest value \<^verbatim>\<open>None\<close> of a short row, or the list of surplus fields.\<close>

datatype cell = FieldCell string | NoneCell | RestCells "string list"

type_synonym rowdict = "(string option \<times> cell) list"

text \<open>\<^verbatim>\<open>dict(pairs)\<close>: a repeated key keeps its first position and its last value.\<close>

definition dict_of :: "('k \<times> 'v) list \<Rightarrow> ('k \<times> 'v) list" where
  "dict_of kvs = fold (\<lambda>(k, v). AList.update k v) kvs []"

definition dict_reader_row :: "string list \<Rightarrow> string list \<Rightarrow> rowdict" where
  "dict_reader_row fieldnames row =
     (let d = dict_of (zip (map Some fieldnames) (map FieldCell row));
          lf = length fieldnames;
          lr = length row
      in if lf < lr then AList.update None (RestCells (drop lf row)) d
         else if lf > lr then fold (\<lambda>k. AList.update (Some k) NoneCell) (drop lr fieldnames) d
         else d)"

text \<open>The reader takes the first record as the field names and skips empty records after
  it.\<close>

definition dict_reader :: "string list list \<Rightarrow> rowdict list" where
  "dict_reader table =
     (case table of
        [] \<Rightarrow> []
      | fieldnames # records \<Rightarrow>
          map (dict_reader_row fieldnames) (filter (\<lambda>r. r \<noteq> []) records))"

text \<open>\<^verbatim>\<open>dict(row, **props)\<close>: the row, with each property overwritten or appended.\<close>

definition with_props :: "rowdict \<Rightarrow> (string \<times> string) list \<Rightarrow> rowdict" where
  "with_props row props = fold (\<lambda>(k, v). AList.update (Some k) (FieldCell v)) props row"

text \<open>How the writer prints a value: \<^verbatim>\<open>None\<close> as the empty field, a list by
  \<^verbatim>\<open>str\<close> (given here for fields free of quotes and backslashes).\<close>

fun join_with :: "string \<Rightarrow> string list \<Rightarrow> string" where
  "join_with sep [] = []"
| "join_with sep [x] = x"
| "join_with sep (x # y # ys) = x @ sep @ join_with sep (y # ys)"

definition render_cell :: "cell \<Rightarrow> string" where
  "render_cell c =
     (case c of
        FieldCell s \<Rightarrow> s
      | NoneCell \<Rightarrow> []
      | RestCells fs \<Rightarrow> ''['' @ join_with '', '' (map (\<lambda>f. [CHR 0x27] @ f @ [CHR 0x27]) fs) @ '']'')"

definition render_key :: "string option \<Rightarrow> string" where
  "render_key k = (case k of None \<Rightarrow> [] | Some f \<Rightarrow> f)"

text \<open>\<^verbatim>\<open>DictWriter._dict_to_list\<close> with \<^verbatim>\<open>extrasaction='raise'\<close> and
  \<^verbatim>\<open>restval=''\<close>.\<close>

definition dict_to_list :: "string option list \<Rightarrow> rowdict \<Rightarrow> error + string list" where
  "dict_to_list fieldnames row =
     (if \<exists>k \<in> set (map fst row). k \<notin> set fieldnames then Inl ValueError
      else Inr (map (\<lambda>k. case map_of row k of None \<Rightarrow> [] | Some c \<Rightarrow> render_cell c) fieldnames))"

text \<open>\<^verbatim>\<open>writerows\<close>: the records go to the file one by one, so what precedes a
  failing row has been written.\<close>

fun writerows :: "string option list \<Rightarrow> rowdict list \<Rightarrow> string list list
    \<Rightarrow> error option \<times> string list list" where
  "writerows fieldnames [] out = (None, out)"
| "writerows fieldnames (r # rs) out =
     (case dict_to_list fieldnames r of
        Inl e \<Rightarrow> (Some e, out)
      | Inr record \<Rightarrow> writerows fieldnames rs (out @ [record]))"

text \<open>\<^verbatim>\<open>update_csv(csv_path, props)\<close>.  The second \<^verbatim>\<open>open\<close>, in mode \<^verbatim>\<open>'w'\<close>,
  empties the file before \<^verbatim>\<open>rows[0]\<close> is evaluated.\<close>

definition update_csv :: "string \<Rightarrow> (string \<times> string) list \<Rightarrow> disk \<Rightarrow> error option \<times> disk" where
  "update_csv csv_path props d =
     (case d csv_path of
        None \<Rightarrow> (Some (FileNotFoundError csv_path), d)
      | Some Dir \<Rightarrow> (Some (IsADirectoryError csv_path), d)
      | Some (File (CsvRows table)) \<Rightarrow>
          (let rows = map (\<lambda>row. with_props row props) (dict_reader table);
               d1 = d(csv_path \<mapsto> File (CsvRows []))
           in case rows of
                [] \<Rightarrow> (Some IndexError, d1)
              | r0 # rs \<Rightarrow>
                  (let fieldnames = map fst r0;
                       (err, out) = writerows fieldnames rows [map render_key fieldnames]
                   in (err, d(csv_path \<mapsto> File (CsvRows out)))))
      | Some (File c) \<Rightarrow> (Some (UnsupportedContent csv_path), d))"

subsection \<open>The config store\<close>

text \<open>Modelled from the spec: the class \<^verbatim>\<open>ConfigBuilder\<close> of
  \<^verbatim>\<open>ateam/sim/setup/config_class.py\<close> is not among the sources.  Following section 4.1
  of the specification, \<^verbatim>\<open>from_json\<close> loads the document at a path and fails when the
  file is absent, \<^verbatim>\<open>load_template\<close> copies a template document to a path,
  \<^verbatim>\<open>update_nested\<close> is a deep merge (a key whose old and new values are both mappings is
  merged recursively, any other key is overwritten), \<^verbatim>\<open>update\<close> is the update of a
  dictionary, and \<^verbatim>\<open>save\<close> writes the in-memory document to the path it was loaded
  from.\<close>

definition from_json :: "string \<Rightarrow> disk \<Rightarrow> error + document" where
  "from_json p d =
     (case d p of
        None \<Rightarrow> Inl (FileNotFoundError p)
      | Some Dir \<Rightarrow> Inl (IsADirectoryError p)
      | Some (File (JsonDoc doc)) \<Rightarrow> Inr doc
      | Some (File c) \<Rightarrow> Inl ValueError)"


text \<open>Modelled from the spec: \<^verbatim>\<open>ConfigBuilder.update_nested\<close>, the deep merge.\<close>

fun update_nested :: "document \<Rightarrow> document \<Rightarrow> document" where
  "update_nested doc [] = doc"
| "update_nested doc ((k, v) # u) =
     update_nested
       (AList.update k
          (case v of
             JObj new \<Rightarrow>
               (case map_of doc k of
                  Some (JObj old) \<Rightarrow> JObj (update_nested old new)
                | _ \<Rightarrow> v)
           | _ \<Rightarrow> v)
          doc)
       u"

text \<open>Modelled from the spec: \<^verbatim>\<open>ConfigBuilder.update(key=value)\<close>, which sets one
  top-level entry of the document.\<close>

definition doc_update :: "string \<Rightarrow> json \<Rightarrow> document \<Rightarrow> document" where
  "doc_update k v doc = AList.update k v doc"

text \<open>Modelled from the spec: \<^verbatim>\<open>ConfigBuilder.save\<close> writes the document to its
  path.\<close>

definition doc_save :: "string \<Rightarrow> document \<Rightarrow> disk \<Rightarrow> disk" where
  "doc_save p doc d = d(p \<mapsto> File (JsonDoc doc))"

subsection \<open>Collaborators outside the sources\<close>

text \<open>A network builder of the simulation framework (\<^verbatim>\<open>bmtk.builder.networks\<close>): of
  its state the manager reads the name and the node ids.\<close>

record network =
  name :: string
  node_ids :: "nat list"

definition NetworkBuilder :: "string \<Rightarrow> network" where
  "NetworkBuilder net_name = \<lparr>name = net_name, node_ids = []\<rparr>"

text \<open>What the manager reads of the framework's \<^verbatim>\<open>ConfigDict\<close>: the flag
  \<^verbatim>\<open>with_networks\<close> and the dictionary \<^verbatim>\<open>networks\<close>, whose entries \<^verbatim>\<open>nodes\<close> and
  \<^verbatim>\<open>edges\<close> are lists of file dictionaries with resolved paths.\<close>

record configdict =
  with_networks :: bool
  networks_block :: "(string \<times> filedict list) list"

text \<open>The environment: the working directory, the functions of \<^verbatim>\<open>os.path\<close> that
  depend on it, and the calls into the framework, each with its effect on the disk.
  \<^verbatim>\<open>net_save\<close> is \<^verbatim>\<open>NetworkBuilder.save(output_dir)\<close>, which returns the nodes
  dictionary and the list of edge dictionaries.  The three writers of input files stand for
  \<^verbatim>\<open>NodeInput.set_current_inputs\<close>, \<^verbatim>\<open>NodeInput.set_spike_inputs_all_nodes\<close> (class
  \<^verbatim>\<open>NodeInput\<close> of \<^verbatim>\<open>ateam/sim/setup/spike_input.py\<close>, not among the sources) and
  \<^verbatim>\<open>PoissonSpikesGenerator(...).to_hdf5\<close>; each gives the content of the file it
  writes.\<close>

record env =
  cwd :: string
  expandpath :: "string \<Rightarrow> string"
  relpath :: "string \<Rightarrow> string \<Rightarrow> string"
  net_save :: "network \<Rightarrow> string \<Rightarrow> disk \<Rightarrow> (error + filedict \<times> filedict list) \<times> disk"
  net_import_nodes :: "string \<Rightarrow> string \<Rightarrow> disk \<Rightarrow> network \<Rightarrow> network"
  configdict_load :: "string \<Rightarrow> disk \<Rightarrow> error + configdict"
  set_current_inputs :: "nat list \<Rightarrow> document \<Rightarrow> content"
  set_spike_inputs_all_nodes :: "nat list \<Rightarrow> json \<Rightarrow> content"
  poisson_to_hdf5 :: "nat list \<Rightarrow> json \<Rightarrow> json \<Rightarrow> json \<Rightarrow> content"

text \<open>\<^verbatim>\<open>os.path.normpath\<close> (posixpath): empty and \<^verbatim>\<open>.\<close> components are dropped, a
  \<^verbatim>\<open>..\<close> removes the component before it (at the root it is dropped; in a relative path
  it is kept when nothing precedes it), and exactly two leading slashes are kept as
  two.\<close>

definition norm_step :: "bool \<Rightarrow> string list \<Rightarrow> string \<Rightarrow> string list" where
  "norm_step rooted new_comps part =
     (if part = [] \<or> part = ''.'' then new_comps
      else if part \<noteq> ''..'' \<or> (\<not> rooted \<and> new_comps = [])
              \<or> (new_comps \<noteq> [] \<and> last new_comps = ''..'')
        then new_comps @ [part]
      else if new_comps \<noteq> [] then butlast new_comps
      else new_comps)"

definition normpath :: "string \<Rightarrow> string" where
  "normpath p =
     (if p = [] then ''.''
      else
        (let initial_slashes =
               (if hd p \<noteq> CHR ''/'' then 0
                else if take 2 p = ''//'' \<and> take 3 p \<noteq> ''///'' then 2
                else (1::nat));
             comps = foldl (norm_step (initial_slashes \<noteq> 0)) [] (split_on CHR ''/'' p);
             joined = replicate initial_slashes CHR ''/'' @ join_with ''/'' comps
         in if joined = [] then ''.'' else joined))"

text \<open>\<^verbatim>\<open>os.path.abspath\<close>: a relative path is joined to the working directory, and the
  result is normalised.  This is also how the operating system resolves a path it is
  given (the model has no symbolic links), so the disk is keyed by such paths.\<close>

definition os_abspath :: "env \<Rightarrow> string \<Rightarrow> string" where
  "os_abspath X p =
     normpath (if p \<noteq> [] \<and> hd p = CHR ''/'' then p else path_join (cwd X) p)"

subsection \<open>The manager\<close>

text \<open>The attributes of a \<^verbatim>\<open>SimManager\<close>.  \<open>config\<close> is the in-memory document of the
  \<^verbatim>\<open>ConfigBuilder\<close> and \<open>config_path\<close> its path; the three dictionaries are
  \<^verbatim>\<open>_networks_active\<close>, \<^verbatim>\<open>_nodes_dict\<close> and \<^verbatim>\<open>_edges_dict\<close>.\<close>

record manager =
  config :: document
  config_path :: string
  configdict :: configdict
  sim_folder :: string
  networks_active :: "(string \<times> network) list"
  nodes_dict :: "(string \<times> filedict) list"
  edges_dict :: "((string \<times> string) \<times> filedict list) list"

definition network_dir :: string where
  "network_dir = ''network''"

definition networks :: "manager \<Rightarrow> string list" where
  "networks m = map fst (networks_active m) @ map fst (nodes_dict m)"

definition networks_saved :: "manager \<Rightarrow> string list" where
  "networks_saved m = map fst (nodes_dict m)"

definition default_network :: "manager \<Rightarrow> error + string" where
  "default_network m =
     (if length (networks m) = 0 then Inl (Exception ''No networks found for this simulation.'')
      else if length (networks m) = 1 then Inr (networks m ! 0)
      else Inl NotImplementedError)"

text \<open>\<^verbatim>\<open>add_network\<close> stores the network under its name; the source has no check
  (\<^verbatim>\<open># TODO: check for name collision\<close>).\<close>

definition add_network :: "network \<Rightarrow> manager \<Rightarrow> manager" where
  "add_network net m = m\<lparr>networks_active := AList.update (name net) net (networks_active m)\<rparr>"

definition new_network :: "string \<Rightarrow> manager \<Rightarrow> network \<times> manager" where
  "new_network net_name m = (let net = NetworkBuilder net_name in (net, add_network net m))"

definition add_networks :: "network list \<Rightarrow> manager \<Rightarrow> manager" where
  "add_networks nets m = fold add_network nets m"

definition abspath :: "manager \<Rightarrow> string \<Rightarrow> string" where
  "abspath m filename = path_join (sim_folder m) filename"

definition clear_output :: "manager \<Rightarrow> disk \<Rightarrow> disk" where
  "clear_output m d = rmtree_ignore_errors (path_join (sim_folder m) ''output'') d"

text \<open>\<^verbatim>\<open>self._edges_dict[pair].append(edgeset)\<close> on a \<^verbatim>\<open>defaultdict(list)\<close>.\<close>

definition edges_append ::
  "string \<times> string \<Rightarrow> filedict \<Rightarrow> ((string \<times> string) \<times> filedict list) list
    \<Rightarrow> ((string \<times> string) \<times> filedict list) list" where
  "edges_append pair edgeset ed =
     AList.update pair ((case map_of ed pair of None \<Rightarrow> [] | Some es \<Rightarrow> es) @ [edgeset]) ed"

text \<open>The loop \<^verbatim>\<open>for edgeset in ...: self._edges_dict[edges_net_pair(edgeset)].append(edgeset)\<close>;
  a failing \<^verbatim>\<open>edges_net_pair\<close> leaves the earlier descriptors registered.\<close>

fun append_edgesets ::
  "filedict list \<Rightarrow> ((string \<times> string) \<times> filedict list) list
    \<Rightarrow> error option \<times> ((string \<times> string) \<times> filedict list) list" where
  "append_edgesets [] ed = (None, ed)"
| "append_edgesets (edgeset # rest) ed =
     (case edges_net_pair edgeset of
        Inl e \<Rightarrow> (Some e, ed)
      | Inr pair \<Rightarrow> append_edgesets rest (edges_append pair edgeset ed))"

definition trim_path :: "env \<Rightarrow> bool \<Rightarrow> string \<Rightarrow> string \<Rightarrow> string" where
  "trim_path X use_abs_paths net_path p =
     (if use_abs_paths then p else path_join ''$NETWORK_DIR'' (relpath X p net_path))"

definition trim_dict :: "(string \<Rightarrow> string) \<Rightarrow> filedict \<Rightarrow> filedict" where
  "trim_dict tp fd = map (\<lambda>(key, p). (key, tp p)) fd"

text \<open>The loop of \<^verbatim>\<open>save_network_files\<close> over \<^verbatim>\<open>self._networks_active.items()\<close>.\<close>

fun save_active ::
  "env \<Rightarrow> (string \<Rightarrow> string) \<Rightarrow> string \<Rightarrow> (string \<times> network) list \<Rightarrow> manager \<Rightarrow> disk
    \<Rightarrow> error option \<times> manager \<times> disk" where
  "save_active X tp net_path [] m d = (None, m, d)"
| "save_active X tp net_path ((nm, net) # rest) m d =
     (if nm \<in> set (networks_saved m) then save_active X tp net_path rest m d
      else
        (case net_save X net net_path d of
           (Inl e, d1) \<Rightarrow> (Some e, m, d1)
         | (Inr (nodes, edge_dicts), d1) \<Rightarrow>
             (let m1 = m\<lparr>nodes_dict := AList.update nm (trim_dict tp nodes) (nodes_dict m)\<rparr>
              in case append_edgesets (map (trim_dict tp) edge_dicts) (edges_dict m1) of
                   (Some e, ed) \<Rightarrow> (Some e, m1\<lparr>edges_dict := ed\<rparr>, d1)
                 | (None, ed) \<Rightarrow> save_active X tp net_path rest (m1\<lparr>edges_dict := ed\<rparr>) d1)))"

definition filedict_json :: "filedict \<Rightarrow> json" where
  "filedict_json fd = JObj (map (\<lambda>(key, p). (key, JStr p)) fd)"

text \<open>The value of \<^verbatim>\<open>{'nodes': nodes, 'edges': edges}\<close> at the end of
  \<^verbatim>\<open>save_network_files\<close>.\<close>

definition networks_json :: "manager \<Rightarrow> json" where
  "networks_json m =
     JObj [(''nodes'', JList (map (\<lambda>(nm, fd). filedict_json fd) (nodes_dict m))),
           (''edges'', JList (map filedict_json (concat (map snd (edges_dict m)))))]"

definition save_network_files :: "env \<Rightarrow> bool \<Rightarrow> manager \<Rightarrow> disk \<Rightarrow> error option \<times> manager \<times> disk" where
  "save_network_files X use_abs_paths m d =
     (let net_path = abspath m network_dir;
          tp = trim_path X use_abs_paths net_path
      in case save_active X tp net_path (networks_active m) m d of
           (Some e, m1, d1) \<Rightarrow> (Some e, m1, d1)
         | (None, m1, d1) \<Rightarrow>
             (let m2 = m1\<lparr>config := doc_update ''networks'' (networks_json m1) (config m1)\<rparr>
              in (None, m2, doc_save (config_path m2) (config m2) d1)))"

text \<open>The loop of \<^verbatim>\<open>load_networks\<close> under \<^verbatim>\<open>import_nodes\<close>.  The builder returned by
  \<^verbatim>\<open>new_network\<close> is the object stored in \<^verbatim>\<open>_networks_active\<close>, so what
  \<^verbatim>\<open>net.import_nodes\<close> does to it is done to the stored entry.\<close>

fun import_nodesets :: "env \<Rightarrow> disk \<Rightarrow> filedict list \<Rightarrow> manager \<Rightarrow> error option \<times> manager" where
  "import_nodesets X d [] m = (None, m)"
| "import_nodesets X d (nodeset # rest) m =
     (case nodes_net_name nodeset of
        Inl e \<Rightarrow> (Some e, m)
      | Inr nm \<Rightarrow>
          (let (net, m1) = new_network nm m
           in case getitem nodeset ''nodes_file'' of
                Inl e \<Rightarrow> (Some e, m1)
              | Inr nodes_file \<Rightarrow>
                  (case getitem nodeset ''node_types_file'' of
                     Inl e \<Rightarrow> (Some e, m1)
                   | Inr node_types_file \<Rightarrow>
                       import_nodesets X d rest
                         (m1\<lparr>networks_active :=
                               AList.update nm (net_import_nodes X nodes_file node_types_file d net)
                                 (networks_active m1)\<rparr>))))"

text \<open>The comprehension \<^verbatim>\<open>{nodes_net_name(nodeset): nodeset for nodeset in nodes_raw}\<close>.\<close>

fun nodes_by_name :: "filedict list \<Rightarrow> (string \<times> filedict) list \<Rightarrow> error + (string \<times> filedict) list" where
  "nodes_by_name [] acc = Inr acc"
| "nodes_by_name (nodeset # rest) acc =
     (case nodes_net_name nodeset of
        Inl e \<Rightarrow> Inl e
      | Inr nm \<Rightarrow> nodes_by_name rest (AList.update nm nodeset acc))"

text \<open>\<^verbatim>\<open>d.update(other)\<close> for dictionaries.\<close>

definition dict_update :: "('k \<times> 'v) list \<Rightarrow> ('k \<times> 'v) list \<Rightarrow> ('k \<times> 'v) list" where
  "dict_update other d = fold (\<lambda>(k, v). AList.update k v) other d"

definition load_networks :: "env \<Rightarrow> bool \<Rightarrow> disk \<Rightarrow> manager \<Rightarrow> error option \<times> manager" where
  "load_networks X import_nodes d m =
     (if with_networks (configdict m) then
        (let nets_dict = networks_block (configdict m)
         in case getitem nets_dict ''nodes'' of
              Inl e \<Rightarrow> (Some e, m)
            | Inr nodes_raw \<Rightarrow>
                (case getitem nets_dict ''edges'' of
                   Inl e \<Rightarrow> (Some e, m)
                 | Inr edges_raw \<Rightarrow>
                     (case (if import_nodes then import_nodesets X d nodes_raw m else (None, m)) of
                        (Some e, m1) \<Rightarrow> (Some e, m1)
                      | (None, m1) \<Rightarrow>
                          (case nodes_by_name nodes_raw [] of
                             Inl e \<Rightarrow> (Some e, m1)
                           | Inr nodes \<Rightarrow>
                               (let m2 = m1\<lparr>nodes_dict := dict_update nodes (nodes_dict m1)\<rparr>
                                in case append_edgesets edges_raw (edges_dict m2) of
                                     (err, ed) \<Rightarrow> (err, m2\<lparr>edges_dict := ed\<rparr>))))))
      else (None, m))"

text \<open>The constructor \<^verbatim>\<open>SimManager(config_path, sim_folder, import_nodes)\<close>.\<close>

definition SimManager :: "env \<Rightarrow> string \<Rightarrow> string \<Rightarrow> bool \<Rightarrow> disk \<Rightarrow> error + manager" where
  "SimManager X config_path0 sim_folder0 import_nodes d =
     (let cp = os_abspath X (path_join sim_folder0 config_path0)
      in case from_json cp d of
           Inl e \<Rightarrow> Inl e
         | Inr doc \<Rightarrow>
             (case configdict_load X cp d of
                Inl e \<Rightarrow> Inl e
              | Inr cd \<Rightarrow>
                  (case load_networks X import_nodes d
                          \<lparr>config = doc, config_path = cp, configdict = cd,
                           sim_folder = dirname cp, networks_active = [],
                           nodes_dict = [], edges_dict = []\<rparr> of
                     (Some e, m) \<Rightarrow> Inl e
                   | (None, m) \<Rightarrow> Inr m)))"


definition or_else :: "string option \<Rightarrow> string \<Rightarrow> string" where
  "or_else x dflt = (case x of None \<Rightarrow> dflt | Some s \<Rightarrow> if s = [] then dflt else s)"




text \<open>\<^verbatim>\<open>save_complete\<close> is a stub: it raises \<^verbatim>\<open>NotImplementedError\<close>.\<close>

definition save_complete :: "string \<Rightarrow> manager \<Rightarrow> error + unit" where
  "save_complete folder_path m = Inl NotImplementedError"

text \<open>The copy made by \<^verbatim>\<open>save_copy\<close> for the given level, into the resolved folder
  path; any other level copies nothing.\<close>

definition copy_level :: "string \<Rightarrow> string \<Rightarrow> manager \<Rightarrow> disk \<Rightarrow> error option \<times> disk" where
  "copy_level level folder m d =
     (if level = ''folder'' then
        (case copytree (sim_folder m) folder d of
           Inl e \<Rightarrow> (Some e, d)
         | Inr d1 \<Rightarrow> (None, d1))
      else if level = ''network'' then
        (case makedirs folder d of
           Inl e \<Rightarrow> (Some e, d)
         | Inr d1 \<Rightarrow>
             (case copy2 (config_path m) folder d1 of
                Inl e \<Rightarrow> (Some e, d1)
              | Inr d2 \<Rightarrow>
                  (case copytree (abspath m network_dir) (path_join folder network_dir) d2 of
                     Inl e \<Rightarrow> (Some e, d2)
                   | Inr d3 \<Rightarrow> (None, d3))))
      else if level = ''complete'' then
        (case save_complete folder m of
           Inl e \<Rightarrow> (Some e, d)
         | Inr u \<Rightarrow> (None, d))
      else (None, d))"

text \<open>\<^verbatim>\<open>save_copy\<close> returns the manager of the copy, or \<^verbatim>\<open>None\<close> when the folder
  exists and \<^verbatim>\<open>overwrite\<close> is false; there the source evaluates
  \<^verbatim>\<open>Warning("Folder exists; aborting.")\<close>, which builds an exception object and drops
  it, and returns.  The folder path reaches the disk resolved.\<close>

definition save_copy ::
  "env \<Rightarrow> string \<Rightarrow> bool \<Rightarrow> string \<Rightarrow> manager \<Rightarrow> disk \<Rightarrow> (error + manager option) \<times> disk" where
  "save_copy X folder_path overwrite level m d =
     (if path_exists d (os_abspath X folder_path) \<and> \<not> overwrite then (Inr None, d)
      else
        (case (if path_exists d (os_abspath X folder_path)
               then rmtree (os_abspath X folder_path) d else Inr d) of
           Inl e \<Rightarrow> (Inl e, d)
         | Inr d1 \<Rightarrow>
             (case copy_level level (os_abspath X folder_path) m d1 of
                (Some e, d2) \<Rightarrow> (Inl e, d2)
              | (None, d2) \<Rightarrow>
                  (case SimManager X (path_join folder_path (basename (config_path m))) [] False d2 of
                     Inl e \<Rightarrow> (Inl e, d2)
                   | Inr sm \<Rightarrow> (Inr (Some sm), clear_output sm d2)))))"

definition get_single_net :: "manager \<Rightarrow> error + string" where
  "get_single_net m =
     (if length (networks m) = 1 then Inr (networks m ! 0)
      else Inl (Exception ''More than one network in simulation, must specify network name.''))"

text \<open>\<^verbatim>\<open>nodes_file(net=None)\<close> and \<^verbatim>\<open>node_types_file(net=None)\<close>.\<close>

definition file_of_net :: "string \<Rightarrow> string option \<Rightarrow> manager \<Rightarrow> error + string" where
  "file_of_net key net m =
     (case (case net of None \<Rightarrow> get_single_net m | Some n \<Rightarrow> Inr n) of
        Inl e \<Rightarrow> Inl e
      | Inr n \<Rightarrow>
          (case getitem (nodes_dict m) n of
             Inl e \<Rightarrow> Inl e
           | Inr fd \<Rightarrow>
               (case getitem fd key of
                  Inl e \<Rightarrow> Inl e
                | Inr p \<Rightarrow> Inr (abspath m p))))"

definition nodes_file :: "string option \<Rightarrow> manager \<Rightarrow> error + string" where
  "nodes_file net m = file_of_net ''nodes_file'' net m"

definition node_types_file :: "string option \<Rightarrow> manager \<Rightarrow> error + string" where
  "node_types_file net m = file_of_net ''node_types_file'' net m"

definition update_node_type_props ::
  "string \<Rightarrow> (string \<times> string) list \<Rightarrow> manager \<Rightarrow> disk \<Rightarrow> error option \<times> disk" where
  "update_node_type_props net_name props m d =
     (if net_name \<notin> set (networks_saved m) then (Some AssertionError, d)
      else
        (case node_types_file (Some net_name) m of
           Inl e \<Rightarrow> (Some e, d)
         | Inr p \<Rightarrow> update_csv p props d))"

text \<open>\<^verbatim>\<open>update_edge_type_props\<close>.  \<^verbatim>\<open>if not edges\<close> holds for a missing pair and for
  an empty list.  For more than one descriptor the source evaluates
  \<^verbatim>\<open>Warning("Multiple edge files ...")\<close>, which has no effect, and goes on with
  \<^verbatim>\<open>edges[0]\<close>.\<close>

definition update_edge_type_props ::
  "string \<Rightarrow> string \<Rightarrow> (string \<times> string) list \<Rightarrow> manager \<Rightarrow> disk \<Rightarrow> error option \<times> disk" where
  "update_edge_type_props src_name dest_name props m d =
     (case map_of (edges_dict m) (src_name, dest_name) of
        None \<Rightarrow> (Some (Exception ''Could not find edges for the specified networks.''), d)
      | Some [] \<Rightarrow> (Some (Exception ''Could not find edges for the specified networks.''), d)
      | Some (edge_dict # others) \<Rightarrow>
          (case getitem edge_dict ''edge_types_file'' of
             Inl e \<Rightarrow> (Some e, d)
           | Inr p \<Rightarrow> update_csv (abspath m p) props d))"

subsection \<open>Inputs and reports\<close>

text \<open>\<^verbatim>\<open>os.path.splitext(p)[1]\<close>: the extension starts at the last dot of the base
  name, unless only dots precede it.\<close>

definition splitext_ext :: "string \<Rightarrow> string" where
  "splitext_ext p =
     (let b = basename p;
          suffix = rev (takeWhile (\<lambda>c. c \<noteq> CHR ''.'') (rev b));
          stem = take (length b - length suffix - 1) b
      in if CHR ''.'' \<in> set b \<and> (\<exists>c \<in> set stem. c \<noteq> CHR ''.'') then CHR ''.'' # suffix
         else [])"

text \<open>\<^verbatim>\<open>str\<close> of an integer.\<close>

fun str_nat :: "nat \<Rightarrow> string" where
  "str_nat n =
     (if n < 10 then [char_of (48 + n)]
      else str_nat (n div 10) @ [char_of (48 + n mod 10)])"

declare str_nat.simps [simp del]

definition str_int :: "int \<Rightarrow> string" where
  "str_int i = (if i < 0 then CHR ''-'' # str_nat (nat (- i)) else str_nat (nat i))"

definition add_current_clamp_complex ::
  "env \<Rightarrow> string \<Rightarrow> document \<Rightarrow> bool \<Rightarrow> string option \<Rightarrow> manager \<Rightarrow> disk
    \<Rightarrow> error option \<times> manager \<times> disk" where
  "add_current_clamp_complex X net_name input_dict use_abs_paths name0 m d =
     (let nm = or_else name0 (net_name @ ''_current'');
          filename = nm @ ''.csv'';
          filepath = abspath m filename
      in case getitem (networks_active m) net_name of
           Inl e \<Rightarrow> (Some e, m, d)
         | Inr net \<Rightarrow>
             (let d1 = d(filepath \<mapsto> File (set_current_inputs X (node_ids net) input_dict));
                  inputs =
                    [(nm, JObj [(''input_type'', JStr ''current_clamp''),
                                (''module'', JStr ''IClamp''),
                                (''node_set'', JStr net_name),
                                (''input_file'', JStr (if use_abs_paths then filepath else filename))])];
                  m1 = m\<lparr>config := update_nested (config m) [(''inputs'', JObj inputs)]\<rparr>
              in (None, m1, doc_save (config_path m1) (config m1) d1)))"

definition add_current_clamp_input ::
  "document \<Rightarrow> string \<Rightarrow> manager \<Rightarrow> disk \<Rightarrow> error option \<times> manager \<times> disk" where
  "add_current_clamp_input input_dict iclamp_name m d =
     (case getitem input_dict ''amp'' of
        Inl e \<Rightarrow> (Some e, m, d)
      | Inr amp \<Rightarrow>
          (case getitem input_dict ''delay'' of
             Inl e \<Rightarrow> (Some e, m, d)
           | Inr delay \<Rightarrow>
               (case getitem input_dict ''duration'' of
                  Inl e \<Rightarrow> (Some e, m, d)
                | Inr duration \<Rightarrow>
                    (let inputs =
                           [(iclamp_name, JObj [(''input_type'', JStr ''current_clamp''),
                                               (''module'', JStr ''IClamp''),
                                               (''node_set'', JStr ''all''),
                                               (''amp'', amp),
                                               (''delay'', delay),
                                               (''duration'', duration)])];
                         m1 = m\<lparr>config := update_nested (config m) [(''inputs'', JObj inputs)]\<rparr>
                     in (None, m1, doc_save (config_path m1) (config m1) d)))))"

definition link_spike_input_file ::
  "string \<Rightarrow> string \<Rightarrow> json \<Rightarrow> string option \<Rightarrow> manager \<Rightarrow> disk \<Rightarrow> error option \<times> manager \<times> disk" where
  "link_spike_input_file input_file net_name trial name0 m d =
     (let ext = drop 1 (splitext_ext input_file);
          nm = or_else name0 (net_name @ ''_spikes'');
          inputs =
            [(nm, JObj [(''input_type'', JStr ''spikes''),
                        (''module'', JStr ext),
                        (''input_file'', JStr input_file),
                        (''node_set'', JStr net_name),
                        (''trial'', trial)])];
          m1 = m\<lparr>config := update_nested (config m) [(''inputs'', JObj inputs)]\<rparr>
      in (None, m1, doc_save (config_path m1) (config m1) d))"

definition add_spike_input_vector ::
  "env \<Rightarrow> string \<Rightarrow> json \<Rightarrow> string \<Rightarrow> bool \<Rightarrow> manager \<Rightarrow> disk \<Rightarrow> error option \<times> manager \<times> disk" where
  "add_spike_input_vector X net_name spike_times spike_file_name use_abs_paths m d =
     (let spike_file = abspath m spike_file_name
      in case getitem (networks_active m) net_name of
           Inl e \<Rightarrow> (Some e, m, d)
         | Inr net \<Rightarrow>
             link_spike_input_file (if use_abs_paths then spike_file else spike_file_name)
               net_name JNull None m
               (d(spike_file \<mapsto> File (set_spike_inputs_all_nodes X (node_ids net) spike_times))))"

definition add_spike_input_poisson ::
  "env \<Rightarrow> string \<Rightarrow> json \<Rightarrow> json \<Rightarrow> json \<Rightarrow> string \<Rightarrow> bool \<Rightarrow> manager \<Rightarrow> disk
    \<Rightarrow> error option \<times> manager \<times> disk" where
  "add_spike_input_poisson X net_name rate tstart tstop spike_file_name use_abs_paths m d =
     (case getitem (networks_active m) net_name of
        Inl e \<Rightarrow> (Some e, m, d)
      | Inr net \<Rightarrow>
          (let spike_file = abspath m spike_file_name
           in link_spike_input_file (if use_abs_paths then spike_file else spike_file_name)
                net_name JNull None m
                (d(spike_file \<mapsto> File (poisson_to_hdf5 X (node_ids net) rate tstart tstop)))))"

text \<open>\<^verbatim>\<open>write_electrode_file(locs, csv_file_name)\<close> opens the file for writing
  itself.\<close>

definition write_electrode_file :: "int list list \<Rightarrow> string \<Rightarrow> disk \<Rightarrow> error + disk" where
  "write_electrode_file locs csv_file_name d =
     (case open_for_writing csv_file_name d of
        Some e \<Rightarrow> Inl e
      | None \<Rightarrow>
          Inr (d(csv_file_name \<mapsto>
                  File (CsvRows ([''channel'', ''x_pos'', ''y_pos'', ''z_pos'']
                                 # map (\<lambda>(i, loc). str_nat i # map str_int loc)
                                     (zip [0..<length locs] locs))))))"

text \<open>\<^verbatim>\<open>add_ecp_report\<close> ends with \<^verbatim>\<open>self.config.update_nested(reports=reports)\<close>;
  the source has no \<^verbatim>\<open>self.config.save()\<close> here.\<close>

definition add_ecp_report ::
  "string option \<Rightarrow> json \<Rightarrow> string \<Rightarrow> int list list \<Rightarrow> bool \<Rightarrow> manager \<Rightarrow> disk
    \<Rightarrow> error option \<times> manager \<times> disk" where
  "add_ecp_report electrode_file0 cells file_name locs save_contributions m d =
     (let electrode_file = (case electrode_file0 of None \<Rightarrow> ''electrode.csv'' | Some f \<Rightarrow> f)
      in case (case electrode_file0 of
                 None \<Rightarrow> write_electrode_file locs (abspath m electrode_file) d
               | Some f \<Rightarrow> Inr d) of
           Inl e \<Rightarrow> (Some e, m, d)
         | Inr d1 \<Rightarrow>
             (let reports =
                    [(''ecp_report'',
                      JObj [(''cells'', cells),
                            (''variable_name'', JStr ''v''),
                            (''module'', JStr ''extracellular''),
                            (''electrode_positions'', JStr electrode_file),
                            (''file_name'', JStr file_name),
                            (''electrode_channels'', JStr ''all''),
                            (''contributions_dir'',
                               if save_contributions then JStr ''ecp_contributions'' else JNull)])]
              in (None, m\<lparr>config := update_nested (config m) [(''reports'', JObj reports)]\<rparr>, d1)))"

definition add_membrane_report ::
  "string \<Rightarrow> json \<Rightarrow> json \<Rightarrow> json \<Rightarrow> string option \<Rightarrow> document \<Rightarrow> manager \<Rightarrow> disk
    \<Rightarrow> error option \<times> manager \<times> disk" where
  "add_membrane_report nm variables cells sections file_name0 kwargs m d =
     (let report =
            [(''module'', JStr ''membrane_report''),
             (''variable_name'', variables),
             (''cells'', cells),
             (''file_name'', JStr (or_else file_name0 (nm @ ''.h5''))),
             (''sections'', sections)];
          reports = [(nm, JObj (dict_update kwargs report))];
          m1 = m\<lparr>config := update_nested (config m) [(''reports'', JObj reports)]\<rparr>
      in (None, m1, doc_save (config_path m1) (config m1) d))"

subsection \<open>The states a manager can reach\<close>

text \<open>A manager starts in its constructor with three empty dictionaries and is changed by
  \<^verbatim>\<open>new_network\<close>, \<^verbatim>\<open>add_network\<close>, \<^verbatim>\<open>add_networks\<close>, \<^verbatim>\<open>load_networks\<close> and
  \<^verbatim>\<open>save_network_files\<close>, on any disk; a call that raises leaves the state it had
  reached.\<close>

inductive reachable :: "env \<Rightarrow> manager \<Rightarrow> bool" for X :: env where
  constructed:
    "reachable X \<lparr>config = doc, config_path = cp, configdict = cd, sim_folder = sf,
                  networks_active = [], nodes_dict = [], edges_dict = []\<rparr>"
| after_new_network: "reachable X m \<Longrightarrow> reachable X (snd (new_network net_name m))"
| after_add_network: "reachable X m \<Longrightarrow> reachable X (add_network net m)"
| after_add_networks: "reachable X m \<Longrightarrow> reachable X (add_networks nets m)"
| after_load_networks: "reachable X m \<Longrightarrow> reachable X (snd (load_networks X import_nodes d m))"
| after_save_network_files:
    "reachable X m \<Longrightarrow> reachable X (fst (snd (save_network_files X use_abs_paths m d)))"

subsection \<open>The naming convention of edge files\<close>

text \<open>A base name follows the convention \<^verbatim>\<open>{source}_{target}_...\<close> when it has two
  underscore-delimited tokens, each closed by an underscore: splitting at the underscores
  gives three pieces or more.\<close>

definition conforming :: "string \<Rightarrow> bool" where
  "conforming b \<longleftrightarrow> 3 \<le> length (split_on CHR ''_'' b)"

subsection \<open>An environment, a disk and managers for the examples\<close>

text \<open>The examples below run the manager in this environment: the framework saves a
  network \<open>n\<close> as \<^verbatim>\<open>n_nodes.h5\<close>, \<^verbatim>\<open>n_node_types.csv\<close>, \<^verbatim>\<open>n_n_edges.h5\<close> and
  \<^verbatim>\<open>n_n_edge_types.csv\<close> in the output directory, and a config has no networks
  block.\<close>

definition demo_env :: env where
  "demo_env =
     \<lparr>cwd = ''/home'',
      expandpath = (\<lambda>p. p),
      relpath = (\<lambda>p start. drop (length start + 1) p),
      net_save = (\<lambda>net out d.
        (Inr ([(''nodes_file'', path_join out (name net @ ''_nodes.h5'')),
               (''node_types_file'', path_join out (name net @ ''_node_types.csv''))],
              [[(''edges_file'', path_join out (name net @ ''_'' @ name net @ ''_edges.h5'')),
                (''edge_types_file'', path_join out (name net @ ''_'' @ name net @ ''_edge_types.csv''))]]),
         d(path_join out (name net @ ''_nodes.h5'') \<mapsto> File (Binary ''nodes''),
           path_join out (name net @ ''_node_types.csv'') \<mapsto> File (CsvRows [[''node_type_id'']]),
           path_join out (name net @ ''_'' @ name net @ ''_edges.h5'') \<mapsto> File (Binary ''edges''),
           path_join out (name net @ ''_'' @ name net @ ''_edge_types.csv'') \<mapsto>
             File (CsvRows [[''edge_type_id'']])))),
      net_import_nodes = (\<lambda>nodes_file node_types_file d net. net),
      configdict_load = (\<lambda>p d. Inr \<lparr>with_networks = False, networks_block = []\<rparr>),
      set_current_inputs = (\<lambda>ids input_dict. Binary ''current''),
      set_spike_inputs_all_nodes = (\<lambda>ids spike_times. Binary ''spikes''),
      poisson_to_hdf5 = (\<lambda>ids rate tstart tstop. Binary ''poisson'')\<rparr>"

definition demo_doc :: document where
  "demo_doc = [(''run'', JObj [(''tstop'', JInt 500)])]"

definition demo_template :: document where
  "demo_template = [(''run'', JObj [(''tstop'', JInt 0)]), (''inputs'', JObj [])]"

definition demo_disk :: disk where
  "demo_disk =
     [''/tpl.json'' \<mapsto> File (JsonDoc demo_template),
      ''/sim'' \<mapsto> Dir,
      ''/sim/config.json'' \<mapsto> File (JsonDoc demo_doc),
      ''/sim/output'' \<mapsto> Dir,
      ''/sim/output/spikes.h5'' \<mapsto> File (Binary ''spikes''),
      ''/sim/network'' \<mapsto> Dir,
      ''/sim/network/a_b_edge_types.csv'' \<mapsto> File (CsvRows [[''edge_type_id'', ''delay''], [''100'', ''2'']]),
      ''/sim/network/a_b_more_edge_types.csv'' \<mapsto> File (CsvRows [[''edge_type_id'', ''delay''], [''101'', ''3'']]),
      ''/sim/network/batch_node_types.csv'' \<mapsto> File (CsvRows [[''node_type_id'', ''cell_id'']])]"

definition demo_manager :: manager where
  "demo_manager =
     \<lparr>config = demo_doc, config_path = ''/sim/config.json'',
      configdict = \<lparr>with_networks = False, networks_block = []\<rparr>,
      sim_folder = ''/sim'', networks_active = [], nodes_dict = [], edges_dict = []\<rparr>"


definition demo_networked :: manager where
  "demo_networked =
     demo_manager
       \<lparr>networks_active := [(''A'', \<lparr>name = ''A'', node_ids = [0, 1, 2]\<rparr>)],
        nodes_dict :=
          [(''batch'', [(''nodes_file'', ''network/batch_nodes.h5''),
                        (''node_types_file'', ''network/batch_node_types.csv'')])],
        edges_dict :=
          [((''a'', ''b''),
            [[(''edges_file'', ''network/a_b_edges.h5''),
              (''edge_types_file'', ''network/a_b_edge_types.csv'')],
             [(''edges_file'', ''network/a_b_more_edges.h5''),
              (''edge_types_file'', ''network/a_b_more_edge_types.csv'')]])]\<rparr>"

definition demo_mixed :: manager where
  "demo_mixed =
     demo_manager
       \<lparr>networks_active :=
          [(''batch'', \<lparr>name = ''batch'', node_ids = [0]\<rparr>), (''A'', \<lparr>name = ''A'', node_ids = []\<rparr>)],
        nodes_dict :=
          [(''batch'', [(''nodes_file'', ''network/batch_nodes.h5''),
                        (''node_types_file'', ''network/batch_node_types.csv'')])]\<rparr>"

text \<open>A framework whose save of the network \<^verbatim>\<open>batch\<close> fails and wipes the disk.\<close>

definition demo_env_wiping :: env where
  "demo_env_wiping =
     demo_env\<lparr>net_save :=
       (\<lambda>net. if name net = ''batch'' then (\<lambda>out d. (Inl ValueError, Map.empty))
              else net_save demo_env net)\<rparr>"

section \<open>Properties\<close>

subsection \<open>Splitting and base names\<close>

lemma split_on_no_sep: "c \<notin> set xs \<Longrightarrow> split_on c xs = [xs]"
  by (induction xs) auto

lemma split_on_nonempty: "split_on c xs \<noteq> []"
  by (induction xs) (auto split: list.splits)

lemma split_on_first: "c \<notin> set xs \<Longrightarrow> split_on c (xs @ c # ys) = xs # split_on c ys"
  by (induction xs) (auto split: list.splits)

lemma length_split_on: "length (split_on c xs) = Suc (count_list xs c)"
  by (induction xs) (auto split: list.splits simp: split_on_nonempty)

lemma basename_append: "CHR ''/'' \<notin> set b \<Longrightarrow> basename (dir @ CHR ''/'' # b) = b"
proof -
  assume b: "CHR ''/'' \<notin> set b"
  have "takeWhile (\<lambda>c. c \<noteq> CHR ''/'') (rev b @ CHR ''/'' # rev dir) =
        takeWhile (\<lambda>c. c \<noteq> CHR ''/'') (rev b)"
    by (rule takeWhile_tail) simp
  also have "\<dots> = rev b"
    using b by auto
  finally show ?thesis
    unfolding basename_def
    by (simp only: rev_append rev.simps rev_rev_ident append.simps append_assoc)
qed

lemma edges_net_pair_fails_iff:
  assumes "map_of edgeset ''edges_file'' = Some f"
  shows "(\<exists>e. edges_net_pair edgeset = Inl e) \<longleftrightarrow> CHR ''_'' \<notin> set (basename f)"
proof (cases "split_on CHR ''_'' (basename f)")
  case Nil
  then show ?thesis by (simp add: split_on_nonempty)
next
  case outer: (Cons s ts)
  have len: "length (split_on CHR ''_'' (basename f)) = Suc (count_list (basename f) CHR ''_'')"
    by (rule length_split_on)
  show ?thesis
  proof (cases ts)
    case Nil
    with outer len have "count_list (basename f) CHR ''_'' = 0" by simp
    hence "CHR ''_'' \<notin> set (basename f)" by (simp add: count_list_0_iff)
    with outer Nil assms show ?thesis by (simp add: edges_net_pair_def getitem_def)
  next
    case (Cons t us)
    with outer len have "count_list (basename f) CHR ''_'' \<noteq> 0" by simp
    hence "CHR ''_'' \<in> set (basename f)" by (simp add: count_list_0_iff)
    with Cons outer assms show ?thesis
      by (simp add: edges_net_pair_def getitem_def)
  qed
qed

text \<open>C6 (as amended).  For an edge file dictionary with an \<^verbatim>\<open>edges_file\<close> entry:
  when the base name is \<open>src_dst_rest\<close> with no underscore inside \<open>src\<close> and \<open>dst\<close>,
  \<^verbatim>\<open>edges_net_pair\<close> returns \<open>(src, dst)\<close>; it fails exactly when the base name has no
  underscore at all; and a base name with a single underscore, \<open>src_tail\<close>, is accepted
  and gives \<open>(src, tail)\<close>.\<close>

theorem edges_net_pair_tokens:
  assumes f: "map_of edgeset ''edges_file'' = Some f"
  shows "(CHR ''_'' \<notin> set src \<and> CHR ''_'' \<notin> set dst \<and>
            basename f = src @ ''_'' @ dst @ ''_'' @ rest
          \<longrightarrow> edges_net_pair edgeset = Inr (src, dst))
       \<and> ((\<exists>e. edges_net_pair edgeset = Inl e) \<longleftrightarrow> CHR ''_'' \<notin> set (basename f))
       \<and> (CHR ''_'' \<notin> set src \<and> CHR ''_'' \<notin> set tail \<and> basename f = src @ ''_'' @ tail
          \<longrightarrow> edges_net_pair edgeset = Inr (src, tail))"
proof (intro conjI impI)
  assume a: "CHR ''_'' \<notin> set src \<and> CHR ''_'' \<notin> set dst \<and>
            basename f = src @ ''_'' @ dst @ ''_'' @ rest"
  hence "split_on CHR ''_'' (basename f) = src # dst # split_on CHR ''_'' rest"
    by (simp add: split_on_first)
  thus "edges_net_pair edgeset = Inr (src, dst)"
    using f by (simp add: edges_net_pair_def getitem_def)
next
  show "(\<exists>e. edges_net_pair edgeset = Inl e) \<longleftrightarrow> CHR ''_'' \<notin> set (basename f)"
    using f by (rule edges_net_pair_fails_iff)
next
  assume a: "CHR ''_'' \<notin> set src \<and> CHR ''_'' \<notin> set tail \<and> basename f = src @ ''_'' @ tail"
  hence "split_on CHR ''_'' (basename f) = [src, tail]"
    by (simp add: split_on_first split_on_no_sep)
  thus "edges_net_pair edgeset = Inr (src, tail)"
    using f by (simp add: edges_net_pair_def getitem_def)
qed

theorem edges_net_pair_tokens_witness:
  "edges_net_pair [(''edges_file'', ''/sim/network/foo_bar_edges.h5'')] = Inr (''foo'', ''bar'')
   \<and> CHR ''_'' \<in> set (basename ''/sim/network/foo_bar_edges.h5'')
   \<and> edges_net_pair [(''edges_file'', ''/sim/network/foo_edges.h5'')] = Inr (''foo'', ''edges.h5'')"
  using edges_net_pair_tokens [where edgeset = "[(''edges_file'', ''/sim/network/foo_bar_edges.h5'')]"
      and f = "''/sim/network/foo_bar_edges.h5''" and src = "''foo''" and dst = "''bar''"
      and rest = "''edges.h5''" and tail = "''bar''"]
    edges_net_pair_tokens [where edgeset = "[(''edges_file'', ''/sim/network/foo_edges.h5'')]"
      and f = "''/sim/network/foo_edges.h5''" and src = "''foo''" and dst = "''edges.h5''"
      and rest = "[]" and tail = "''edges.h5''"]
  by (simp add: basename_def)

text \<open>The claim as stated fails at \<^verbatim>\<open>foo_edges.h5\<close>: the name does not follow the
  convention, and the pair \<open>(foo, edges.h5)\<close> is returned, and registered on load, without a
  failure.\<close>

theorem edges_net_pair_nonconforming_counterexample:
  "\<not> conforming (basename ''/sim/network/foo_edges.h5'')
   \<and> edges_net_pair [(''edges_file'', ''/sim/network/foo_edges.h5'')] = Inr (''foo'', ''edges.h5'')
   \<and> append_edgesets [[(''edges_file'', ''/sim/network/foo_edges.h5'')]] []
       = (None, [((''foo'', ''edges.h5''), [[(''edges_file'', ''/sim/network/foo_edges.h5'')]])])"
  by (simp add: conforming_def basename_def edges_net_pair_def getitem_def edges_append_def)

subsection \<open>The default network\<close>

lemma file_of_net_None:
  "file_of_net key None m =
     (case get_single_net m of Inl e \<Rightarrow> Inl e | Inr n \<Rightarrow> file_of_net key (Some n) m)"
  by (simp add: file_of_net_def split: sum.splits)

lemma single_entry: "set xs = {n} \<Longrightarrow> distinct xs \<Longrightarrow> xs = [n]"
proof -
  assume s: "set xs = {n}" and d: "distinct xs"
  from d have "length xs = card (set xs)" by (simp add: distinct_card)
  with s have "length xs = 1" by simp
  then obtain x where "xs = [x]" by (cases xs) auto
  with s show ?thesis by simp
qed

text \<open>C5 (as amended).  The registered networks are the names in \<^verbatim>\<open>networks\<close>.
  \<^verbatim>\<open>default_network\<close> fails with the "No networks found" error when none is registered,
  returns the name when exactly one is registered and it is listed once (it is not at once
  active and saved), and raises \<^verbatim>\<open>NotImplementedError\<close> when two or more are registered.
  \<^verbatim>\<open>nodes_file\<close> and \<^verbatim>\<open>node_types_file\<close> without a network name resolve it through
  \<^verbatim>\<open>get_single_net\<close>: with exactly one registered network, listed once, they go on with
  it; with two or more they fail with the error that asks for a network name.\<close>

theorem default_network_by_count:
  "(set (networks m) = {} \<longrightarrow>
      default_network m = Inl (Exception ''No networks found for this simulation.''))
   \<and> (set (networks m) = {n} \<and> distinct (networks m) \<longrightarrow>
        default_network m = Inr n
        \<and> get_single_net m = Inr n
        \<and> nodes_file None m = nodes_file (Some n) m
        \<and> node_types_file None m = node_types_file (Some n) m)
   \<and> (2 \<le> card (set (networks m)) \<longrightarrow>
        default_network m = Inl NotImplementedError
        \<and> get_single_net m =
            Inl (Exception ''More than one network in simulation, must specify network name.'')
        \<and> nodes_file None m =
            Inl (Exception ''More than one network in simulation, must specify network name.'')
        \<and> node_types_file None m =
            Inl (Exception ''More than one network in simulation, must specify network name.''))"
proof -
  have p0: "default_network m = Inl (Exception ''No networks found for this simulation.'')"
    if "set (networks m) = {}"
    using that by (simp add: default_network_def)
  have p1: "default_network m = Inr n \<and> get_single_net m = Inr n
        \<and> nodes_file None m = nodes_file (Some n) m
        \<and> node_types_file None m = node_types_file (Some n) m"
    if "set (networks m) = {n} \<and> distinct (networks m)"
  proof -
    from that have one: "networks m = [n]" by (simp add: single_entry)
    hence g: "get_single_net m = Inr n" by (simp add: get_single_net_def)
    from one have "default_network m = Inr n" by (simp add: default_network_def)
    with g show ?thesis
      by (simp add: nodes_file_def node_types_file_def file_of_net_None)
  qed
  have p2: "default_network m = Inl NotImplementedError
        \<and> get_single_net m =
            Inl (Exception ''More than one network in simulation, must specify network name.'')
        \<and> nodes_file None m =
            Inl (Exception ''More than one network in simulation, must specify network name.'')
        \<and> node_types_file None m =
            Inl (Exception ''More than one network in simulation, must specify network name.'')"
    if "2 \<le> card (set (networks m))"
  proof -
    have "card (set (networks m)) \<le> length (networks m)" by (rule card_length)
    with that have len: "2 \<le> length (networks m)" by simp
    hence g: "get_single_net m =
        Inl (Exception ''More than one network in simulation, must specify network name.'')"
      by (simp add: get_single_net_def)
    from len have "default_network m = Inl NotImplementedError"
      by (auto simp: default_network_def)
    with g show ?thesis
      by (simp add: nodes_file_def node_types_file_def file_of_net_None)
  qed
  from p0 p1 p2 show ?thesis by blast
qed

theorem default_network_by_count_witness:
  "default_network demo_manager = Inl (Exception ''No networks found for this simulation.'')
   \<and> default_network (snd (new_network ''A'' demo_manager)) = Inr ''A''
   \<and> nodes_file None (snd (new_network ''A'' demo_manager))
       = nodes_file (Some ''A'') (snd (new_network ''A'' demo_manager))
   \<and> default_network (snd (new_network ''B'' (snd (new_network ''A'' demo_manager))))
       = Inl NotImplementedError
   \<and> nodes_file None (snd (new_network ''B'' (snd (new_network ''A'' demo_manager))))
       = Inl (Exception ''More than one network in simulation, must specify network name.'')"
proof -
  have n0: "set (networks demo_manager) = {}"
    by (simp add: demo_manager_def networks_def)
  have n1: "set (networks (snd (new_network ''A'' demo_manager))) = {''A''}
      \<and> distinct (networks (snd (new_network ''A'' demo_manager)))"
    by (simp add: demo_manager_def new_network_def add_network_def NetworkBuilder_def
        networks_def Let_def)
  have "networks (snd (new_network ''B'' (snd (new_network ''A'' demo_manager)))) = [''A'', ''B'']"
    by (simp add: demo_manager_def new_network_def add_network_def NetworkBuilder_def
        networks_def Let_def)
  hence n2: "2 \<le> card (set (networks (snd (new_network ''B'' (snd (new_network ''A'' demo_manager))))))"
    by simp
  from default_network_by_count [of demo_manager, THEN conjunct1, rule_format, OF n0]
    default_network_by_count [of "snd (new_network ''A'' demo_manager)" "''A''",
      THEN conjunct2, THEN conjunct1, rule_format, OF n1]
    default_network_by_count [of "snd (new_network ''B'' (snd (new_network ''A'' demo_manager)))",
      THEN conjunct2, THEN conjunct2, rule_format, OF n2]
  show ?thesis by blast
qed

text \<open>The claim as stated fails on a manager without networks: \<^verbatim>\<open>default_network\<close>
  reports that there are none, while \<^verbatim>\<open>nodes_file()\<close> reports more than one; and with
  two networks \<^verbatim>\<open>default_network\<close> raises \<^verbatim>\<open>NotImplementedError\<close>.\<close>

theorem default_network_counterexample:
  "default_network demo_manager = Inl (Exception ''No networks found for this simulation.'')
   \<and> nodes_file None demo_manager =
       Inl (Exception ''More than one network in simulation, must specify network name.'')
   \<and> nodes_file None demo_manager \<noteq> Inl (Exception ''No networks found for this simulation.'')
   \<and> default_network (snd (new_network ''B'' (snd (new_network ''A'' demo_manager))))
       = Inl NotImplementedError"
  by (simp add: demo_manager_def default_network_def networks_def nodes_file_def
      file_of_net_def get_single_net_def new_network_def add_network_def NetworkBuilder_def Let_def)

subsection \<open>Registering networks\<close>

text \<open>C1.  \<^verbatim>\<open>new_network\<close> has no failing path: whatever the state, also when the name
  is already active or saved, it returns a fresh empty builder and stores it under the
  name, so an active network of that name is replaced.  The saved set is left as it
  is.\<close>

theorem new_network_replaces:
  "fst (new_network net_name m) = NetworkBuilder net_name
   \<and> map_of (networks_active (snd (new_network net_name m))) net_name = Some (NetworkBuilder net_name)
   \<and> nodes_dict (snd (new_network net_name m)) = nodes_dict m"
  by (simp add: new_network_def add_network_def NetworkBuilder_def Let_def update_conv')

theorem new_network_replaces_witness:
  "map_of (networks_active demo_networked) ''A'' = Some \<lparr>name = ''A'', node_ids = [0, 1, 2]\<rparr>
   \<and> map_of (networks_active (snd (new_network ''A'' demo_networked))) ''A''
       = Some \<lparr>name = ''A'', node_ids = []\<rparr>
   \<and> ''batch'' \<in> set (networks_saved demo_networked)
   \<and> networks (snd (new_network ''batch'' demo_networked)) = [''A'', ''batch'', ''batch'']"
  using new_network_replaces [of "''A''" demo_networked]
  by (simp add: demo_networked_def demo_manager_def NetworkBuilder_def networks_saved_def
      networks_def new_network_def add_network_def Let_def)

subsection \<open>Inputs and reports\<close>

lemma map_of_update_nested_single: "map_of (update_nested doc [(k, v)]) k \<noteq> None"
  by (simp add: update_conv')

text \<open>The sibling methods persist the document they have merged into.\<close>

lemma add_membrane_report_saved:
  "add_membrane_report nm variables cells sections file_name0 kwargs m d = (r, m', d')
   \<Longrightarrow> r = None \<and> d' (config_path m') = Some (File (JsonDoc (config m')))"
  by (auto simp: add_membrane_report_def Let_def doc_save_def)

lemma link_spike_input_file_saved:
  "link_spike_input_file input_file net_name trial name0 m d = (r, m', d')
   \<Longrightarrow> r = None \<and> d' (config_path m') = Some (File (JsonDoc (config m')))"
  by (auto simp: link_spike_input_file_def Let_def doc_save_def)

lemma add_current_clamp_input_saved:
  "add_current_clamp_input input_dict iclamp_name m d = (None, m', d')
   \<Longrightarrow> d' (config_path m') = Some (File (JsonDoc (config m')))"
  by (auto simp: add_current_clamp_input_def Let_def doc_save_def split: sum.splits)

lemma add_current_clamp_complex_saved:
  "add_current_clamp_complex X net_name input_dict use_abs_paths name0 m d = (None, m', d')
   \<Longrightarrow> d' (config_path m') = Some (File (JsonDoc (config m')))"
  by (auto simp: add_current_clamp_complex_def Let_def doc_save_def split: sum.splits)

lemma add_spike_input_poisson_saved:
  "add_spike_input_poisson X net_name rate tstart tstop spike_file_name use_abs_paths m d = (None, m', d')
   \<Longrightarrow> d' (config_path m') = Some (File (JsonDoc (config m')))"
  by (auto simp: add_spike_input_poisson_def Let_def split: sum.splits
      dest: link_spike_input_file_saved)

lemma add_spike_input_vector_saved:
  "add_spike_input_vector X net_name spike_times spike_file_name use_abs_paths m d = (None, m', d')
   \<Longrightarrow> d' (config_path m') = Some (File (JsonDoc (config m')))"
  by (auto simp: add_spike_input_vector_def Let_def split: sum.splits
      dest: link_spike_input_file_saved)

text \<open>C7.  \<^verbatim>\<open>add_ecp_report\<close> with an electrode file returns normally, has the
  \<^verbatim>\<open>reports\<close> section in the in-memory document, and leaves the whole disk as it was:
  the document is not persisted.\<close>

theorem add_ecp_report_not_saved:
  "fst (add_ecp_report (Some f) cells file_name locs save_contributions m d) = None
   \<and> map_of (config (fst (snd (add_ecp_report (Some f) cells file_name locs save_contributions m d))))
        ''reports'' \<noteq> None
   \<and> snd (snd (add_ecp_report (Some f) cells file_name locs save_contributions m d)) = d"
  by (simp add: add_ecp_report_def Let_def update_conv')

theorem add_ecp_report_not_saved_witness:
  "demo_disk ''/sim/config.json'' = Some (File (JsonDoc demo_doc))
   \<and> snd (snd (add_ecp_report (Some ''electrode.csv'') (JStr ''all'') ''ecp.h5'' [[0, 0, 0]] False
               demo_manager demo_disk)) ''/sim/config.json''
       = Some (File (JsonDoc demo_doc))
   \<and> map_of demo_doc ''reports'' = None"
  using add_ecp_report_not_saved [of "''electrode.csv''" "JStr ''all''" "''ecp.h5''" "[[0, 0, 0]]"
      False demo_manager demo_disk]
  by (simp add: demo_disk_def demo_doc_def)

subsection \<open>Updating the type files\<close>

text \<open>C8.  \<^verbatim>\<open>update_edge_type_props\<close> fails with the "Could not find edges" error when
  the pair has no descriptor (no entry, or an empty list).  When the pair has descriptors,
  its whole outcome, the error if any and the disk, is the outcome for the first
  descriptor alone: a second descriptor leaves no trace, no warning among them.\<close>

theorem update_edge_type_props_first_only:
  "(map_of (edges_dict m) (s, t) = None \<or> map_of (edges_dict m) (s, t) = Some [] \<longrightarrow>
      update_edge_type_props s t props m d
        = (Some (Exception ''Could not find edges for the specified networks.''), d))
   \<and> (map_of (edges_dict m) (s, t) = Some (e # rest) \<longrightarrow>
        update_edge_type_props s t props m d
          = update_edge_type_props s t props (m\<lparr>edges_dict := [((s, t), [e])]\<rparr>) d
        \<and> update_edge_type_props s t props m d
          = (case getitem e ''edge_types_file'' of
               Inl err \<Rightarrow> (Some err, d)
             | Inr p \<Rightarrow> update_csv (path_join (sim_folder m) p) props d))"
  by (auto simp: update_edge_type_props_def abspath_def split: sum.splits)

theorem update_edge_type_props_first_only_witness:
  "fst (update_edge_type_props ''a'' ''b'' [(''delay'', ''5'')] demo_networked demo_disk) = None
   \<and> snd (update_edge_type_props ''a'' ''b'' [(''delay'', ''5'')] demo_networked demo_disk)
        ''/sim/network/a_b_edge_types.csv''
       = Some (File (CsvRows [[''edge_type_id'', ''delay''], [''100'', ''5'']]))
   \<and> snd (update_edge_type_props ''a'' ''b'' [(''delay'', ''5'')] demo_networked demo_disk)
        ''/sim/network/a_b_more_edge_types.csv''
       = Some (File (CsvRows [[''edge_type_id'', ''delay''], [''101'', ''3'']]))
   \<and> update_edge_type_props ''a'' ''c'' [(''delay'', ''5'')] demo_networked demo_disk
       = (Some (Exception ''Could not find edges for the specified networks.''), demo_disk)"
  using update_edge_type_props_first_only [of demo_networked "''a''" "''b''" "[(''delay'', ''5'')]"
      demo_disk "[(''edges_file'', ''network/a_b_edges.h5''),
              (''edge_types_file'', ''network/a_b_edge_types.csv'')]"
      "[[(''edges_file'', ''network/a_b_more_edges.h5''),
              (''edge_types_file'', ''network/a_b_more_edge_types.csv'')]]"]
    update_edge_type_props_first_only [of demo_networked "''a''" "''c''" "[(''delay'', ''5'')]"
      demo_disk]
  by (simp add: demo_networked_def demo_manager_def demo_disk_def getitem_def path_join_def
      update_edge_type_props_def abspath_def update_csv_def dict_reader_def dict_reader_row_def dict_of_def with_props_def
      dict_to_list_def render_cell_def render_key_def Let_def)

text \<open>C10.  On a type file without data rows (empty, or a header alone)
  \<^verbatim>\<open>update_csv\<close> raises \<^verbatim>\<open>IndexError\<close>, and the file it leaves is empty: the raise comes
  after the file was opened for writing.\<close>

theorem update_csv_no_rows:
  assumes "d p = Some (File (CsvRows table))" and "length table \<le> 1"
  shows "update_csv p props d = (Some IndexError, d(p \<mapsto> File (CsvRows [])))"
proof -
  have "dict_reader table = []"
    using assms(2) by (cases table) (auto simp: dict_reader_def)
  thus ?thesis
    using assms(1) by (simp add: update_csv_def)
qed

theorem update_csv_no_rows_witness:
  "demo_disk ''/sim/network/batch_node_types.csv'' = Some (File (CsvRows [[''node_type_id'', ''cell_id'']]))
   \<and> update_node_type_props ''batch'' [(''cell_id'', ''42'')] demo_networked demo_disk
       = (Some IndexError, demo_disk(''/sim/network/batch_node_types.csv'' \<mapsto> File (CsvRows [])))"
proof -
  have f: "demo_disk ''/sim/network/batch_node_types.csv''
      = Some (File (CsvRows [[''node_type_id'', ''cell_id'']]))"
    by (simp add: demo_disk_def)
  have p: "node_types_file (Some ''batch'') demo_networked = Inr ''/sim/network/batch_node_types.csv''"
    by (simp add: node_types_file_def file_of_net_def demo_networked_def demo_manager_def
        getitem_def abspath_def path_join_def)
  have s: "''batch'' \<in> set (networks_saved demo_networked)"
    by (simp add: networks_saved_def demo_networked_def demo_manager_def)
  show ?thesis
    using f p s update_csv_no_rows [where d = demo_disk and p = "''/sim/network/batch_node_types.csv''"
        and table = "[[''node_type_id'', ''cell_id'']]" and props = "[(''cell_id'', ''42'')]"]
    by (simp add: update_node_type_props_def)
qed

subsection \<open>Saving the network files\<close>

lemma save_active_frame:
  "save_active X tp np items m d = (r, m1, d1) \<Longrightarrow>
     networks_active m1 = networks_active m \<and> config m1 = config m
     \<and> config_path m1 = config_path m \<and> sim_folder m1 = sim_folder m
     \<and> configdict m1 = configdict m
     \<and> set (networks_saved m) \<subseteq> set (networks_saved m1)"
proof (induction items arbitrary: m d)
  case Nil
  then show ?case by simp
next
  case (Cons item items)
  obtain nm net where item: "item = (nm, net)" by (cases item)
  show ?case
  proof (cases "nm \<in> set (networks_saved m)")
    case True
    with Cons item show ?thesis by simp
  next
    case False
    obtain res d0 where ns: "net_save X net np d = (res, d0)" by (cases "net_save X net np d")
    show ?thesis
    proof (cases res)
      case (Inl e)
      with Cons.prems item False ns show ?thesis by simp
    next
      case (Inr pr)
      obtain nodes edge_dicts where pr: "pr = (nodes, edge_dicts)" by (cases pr)
      let ?m1 = "m\<lparr>nodes_dict := AList.update nm (trim_dict tp nodes) (nodes_dict m)\<rparr>"
      obtain er ed' where ae:
        "append_edgesets (map (trim_dict tp) edge_dicts) (edges_dict ?m1) = (er, ed')"
        by (cases "append_edgesets (map (trim_dict tp) edge_dicts) (edges_dict ?m1)")
      show ?thesis
      proof (cases er)
        case None
        with Cons.prems item False ns Inr pr ae
        have "save_active X tp np items (?m1\<lparr>edges_dict := ed'\<rparr>) d0 = (r, m1, d1)"
          by simp
        from Cons.IH [OF this] show ?thesis
          by (auto simp: networks_saved_def AList.dom_update)
      next
        case (Some e)
        with Cons.prems item False ns Inr pr ae show ?thesis
          by (force simp: networks_saved_def AList.dom_update)
      qed
    qed
  qed
qed

lemma save_active_all_saved:
  "save_active X tp np items m d = (None, m1, d1) \<Longrightarrow> fst ` set items \<subseteq> set (networks_saved m1)"
proof (induction items arbitrary: m d)
  case Nil
  then show ?case by simp
next
  case (Cons item items)
  obtain nm net where item: "item = (nm, net)" by (cases item)
  show ?case
  proof (cases "nm \<in> set (networks_saved m)")
    case True
    with Cons.prems item have run: "save_active X tp np items m d = (None, m1, d1)" by simp
    from save_active_frame [OF run] True have "nm \<in> set (networks_saved m1)" by auto
    with Cons.IH [OF run] item show ?thesis by simp
  next
    case False
    obtain res d0 where ns: "net_save X net np d = (res, d0)" by (cases "net_save X net np d")
    show ?thesis
    proof (cases res)
      case (Inl e)
      with Cons.prems item False ns show ?thesis by simp
    next
      case (Inr pr)
      obtain nodes edge_dicts where pr: "pr = (nodes, edge_dicts)" by (cases pr)
      let ?m1 = "m\<lparr>nodes_dict := AList.update nm (trim_dict tp nodes) (nodes_dict m)\<rparr>"
      obtain er ed' where ae:
        "append_edgesets (map (trim_dict tp) edge_dicts) (edges_dict ?m1) = (er, ed')"
        by (cases "append_edgesets (map (trim_dict tp) edge_dicts) (edges_dict ?m1)")
      show ?thesis
      proof (cases er)
        case None
        with Cons.prems item False ns Inr pr ae
        have run: "save_active X tp np items (?m1\<lparr>edges_dict := ed'\<rparr>) d0 = (None, m1, d1)"
          by simp
        have "nm \<in> set (networks_saved (?m1\<lparr>edges_dict := ed'\<rparr>))"
          by (simp add: networks_saved_def AList.dom_update)
        with save_active_frame [OF run] have "nm \<in> set (networks_saved m1)" by auto
        with Cons.IH [OF run] item show ?thesis by simp
      next
        case (Some e)
        with Cons.prems item False ns Inr pr ae show ?thesis by simp
      qed
    qed
  qed
qed

lemma save_active_skips:
  "fst ` set items \<subseteq> set (networks_saved m) \<Longrightarrow> save_active X tp np items m d = (None, m, d)"
  by (induction items) auto

lemma networks_json_config [simp]: "networks_json (m\<lparr>config := c\<rparr>) = networks_json m"
  by (simp add: networks_json_def)

lemma networks_saved_config [simp]: "networks_saved (m\<lparr>config := c\<rparr>) = networks_saved m"
  by (simp add: networks_saved_def)

lemma save_active_other_framework:
  "(\<And>nm net. (nm, net) \<in> set items \<Longrightarrow> nm \<notin> set (networks_saved m)
       \<Longrightarrow> net_save Y net = net_save X net)
   \<Longrightarrow> save_active Y tp np items m d = save_active X tp np items m d"
proof (induction items arbitrary: m d)
  case Nil
  show ?case by simp
next
  case (Cons item items)
  obtain nm net where item: "item = (nm, net)" by (cases item)
  show ?case
  proof (cases "nm \<in> set (networks_saved m)")
    case True
    have "save_active Y tp np items m d = save_active X tp np items m d"
      by (rule Cons.IH) (rule Cons.prems, simp_all)
    with True item show ?thesis by simp
  next
    case False
    with Cons.prems [of nm net] item have same: "net_save Y net = net_save X net" by simp
    have later: "save_active Y tp np items m' d' = save_active X tp np items m' d'"
      if "set (networks_saved m) \<subseteq> set (networks_saved m')" for m' d'
    proof (rule Cons.IH)
      fix nm' net'
      assume "(nm', net') \<in> set items" and "nm' \<notin> set (networks_saved m')"
      with that show "net_save Y net' = net_save X net'"
        by (intro Cons.prems) auto
    qed
    have grow: "set (networks_saved m)
        \<subseteq> set (networks_saved (m\<lparr>nodes_dict := AList.update nm v (nodes_dict m), edges_dict := ed\<rparr>))"
      for v ed
      by (auto simp: networks_saved_def AList.dom_update)
    show ?thesis
      using item False same later [OF grow]
      by (simp add: Let_def split: prod.splits sum.splits option.splits)
  qed
qed

text \<open>C3.  When \<^verbatim>\<open>save_network_files\<close> has returned, a second call with the same flag
  returns and leaves the manager, with its config document, and the whole disk as the
  first call left them.  When every active network is already in the saved set, a call
  saves no network: it changes the config document alone, and on the disk the config file
  alone.  And in any state the framework's save is not called for an active network that
  is already saved: a call has the same outcome whatever that save would do for such a
  network.\<close>

theorem save_network_files_idempotent:
  "(save_network_files X use_abs_paths m d = (None, m1, d1) \<longrightarrow>
      save_network_files X use_abs_paths m1 d1 = (None, m1, d1))
   \<and> (fst ` set (networks_active m) \<subseteq> set (networks_saved m) \<longrightarrow>
        save_network_files X use_abs_paths m d
          = (None, m\<lparr>config := doc_update ''networks'' (networks_json m) (config m)\<rparr>,
             d(config_path m \<mapsto> File (JsonDoc (doc_update ''networks'' (networks_json m) (config m))))))
   \<and> ((\<forall>nm net. (nm, net) \<in> set (networks_active m) \<and> nm \<notin> set (networks_saved m)
          \<longrightarrow> f net = net_save X net) \<longrightarrow>
        save_network_files (X\<lparr>net_save := f\<rparr>) use_abs_paths m d
          = save_network_files X use_abs_paths m d)"
proof (intro conjI impI)
  assume first: "save_network_files X use_abs_paths m d = (None, m1, d1)"
  let ?np = "abspath m network_dir"
  let ?tp = "trim_path X use_abs_paths ?np"
  obtain r m0 d0 where loop: "save_active X ?tp ?np (networks_active m) m d = (r, m0, d0)"
    by (cases "save_active X ?tp ?np (networks_active m) m d")
  from first loop have r: "r = None"
    by (cases r) (auto simp: save_network_files_def Let_def)
  from first loop r have m1: "m1 = m0\<lparr>config := doc_update ''networks'' (networks_json m0) (config m0)\<rparr>"
    and d1: "d1 = doc_save (config_path m0) (doc_update ''networks'' (networks_json m0) (config m0)) d0"
    by (auto simp: save_network_files_def Let_def)
  from save_active_frame [OF loop] have frame: "networks_active m0 = networks_active m"
    "sim_folder m0 = sim_folder m" by auto
  from save_active_all_saved [OF loop [unfolded r]]
  have "fst ` set (networks_active m1) \<subseteq> set (networks_saved m1)"
    by (simp add: m1 frame)
  hence skip: "save_active X ?tp ?np (networks_active m1) m1 d1 = (None, m1, d1)"
    by (rule save_active_skips)
  have np: "abspath m1 network_dir = ?np"
    by (simp add: abspath_def m1 frame)
  have same_doc: "doc_update ''networks'' (networks_json m1) (config m1) = config m1"
    by (simp add: m1 doc_update_def)
  have same_disk: "doc_save (config_path m1) (config m1) d1 = d1"
    by (simp add: m1 d1 doc_save_def)
  show "save_network_files X use_abs_paths m1 d1 = (None, m1, d1)"
    by (simp add: save_network_files_def Let_def np skip same_doc same_disk)
next
  assume "fst ` set (networks_active m) \<subseteq> set (networks_saved m)"
  hence "save_active X (trim_path X use_abs_paths (abspath m network_dir)) (abspath m network_dir)
           (networks_active m) m d = (None, m, d)"
    by (rule save_active_skips)
  thus "save_network_files X use_abs_paths m d
          = (None, m\<lparr>config := doc_update ''networks'' (networks_json m) (config m)\<rparr>,
             d(config_path m \<mapsto> File (JsonDoc (doc_update ''networks'' (networks_json m) (config m)))))"
    by (simp add: save_network_files_def Let_def doc_save_def)
next
  assume a: "\<forall>nm net. (nm, net) \<in> set (networks_active m) \<and> nm \<notin> set (networks_saved m)
          \<longrightarrow> f net = net_save X net"
  have tp: "trim_path (X\<lparr>net_save := f\<rparr>) use_abs_paths = trim_path X use_abs_paths"
    by (simp add: trim_path_def fun_eq_iff)
  have "save_active (X\<lparr>net_save := f\<rparr>) tp np (networks_active m) m d
          = save_active X tp np (networks_active m) m d" for tp np
    by (rule save_active_other_framework) (use a in simp)
  thus "save_network_files (X\<lparr>net_save := f\<rparr>) use_abs_paths m d
          = save_network_files X use_abs_paths m d"
    by (simp add: save_network_files_def tp)
qed

lemma demo_saved_once:
  "save_network_files demo_env False (snd (new_network ''A'' demo_manager)) demo_disk =
     (None,
      fst (snd (save_network_files demo_env False (snd (new_network ''A'' demo_manager)) demo_disk)),
      snd (snd (save_network_files demo_env False (snd (new_network ''A'' demo_manager)) demo_disk)))"
proof -
  have "fst (save_network_files demo_env False (snd (new_network ''A'' demo_manager)) demo_disk) = None"
    by (simp add: save_network_files_def Let_def new_network_def add_network_def
        NetworkBuilder_def demo_manager_def demo_env_def networks_saved_def abspath_def
        network_dir_def trim_dict_def edges_net_pair_def getitem_def basename_def
        trim_path_def path_join_def edges_append_def)
  thus ?thesis by (metis prod.collapse)
qed

lemma demo_saved_networks:
  "networks (fst (snd (save_network_files demo_env False (snd (new_network ''A'' demo_manager))
      demo_disk))) = [''A'', ''A'']"
  by (simp add: save_network_files_def Let_def new_network_def add_network_def
        NetworkBuilder_def demo_manager_def demo_env_def networks_saved_def abspath_def
        network_dir_def trim_dict_def edges_net_pair_def getitem_def basename_def
        trim_path_def path_join_def edges_append_def networks_def)

lemma demo_mixed_disk:
  "demo_disk ''/sim/network/batch_node_types.csv''
     = Some (File (CsvRows [[''node_type_id'', ''cell_id'']]))
   \<and> snd (snd (save_network_files demo_env False demo_mixed demo_disk))
        ''/sim/network/batch_node_types.csv''
       = Some (File (CsvRows [[''node_type_id'', ''cell_id'']]))
   \<and> snd (snd (save_network_files demo_env False demo_mixed demo_disk))
        ''/sim/network/A_node_types.csv''
       = Some (File (CsvRows [[''node_type_id'']]))
   \<and> networks_saved (fst (snd (save_network_files demo_env False demo_mixed demo_disk)))
       = [''batch'', ''A'']"
  by code_simp

theorem save_network_files_idempotent_witness:
  "fst (save_network_files demo_env False (snd (new_network ''A'' demo_manager)) demo_disk) = None
   \<and> save_network_files demo_env False
        (fst (snd (save_network_files demo_env False (snd (new_network ''A'' demo_manager)) demo_disk)))
        (snd (snd (save_network_files demo_env False (snd (new_network ''A'' demo_manager)) demo_disk)))
       = save_network_files demo_env False (snd (new_network ''A'' demo_manager)) demo_disk
   \<and> fst (save_network_files demo_env False demo_manager demo_disk) = None
   \<and> save_network_files demo_env_wiping False demo_mixed demo_disk
       = save_network_files demo_env False demo_mixed demo_disk
   \<and> snd (snd (save_network_files demo_env_wiping False demo_mixed demo_disk))
        ''/sim/network/batch_node_types.csv''
       = demo_disk ''/sim/network/batch_node_types.csv''"
proof -
  note once = demo_saved_once
  have none: "fst ` set (networks_active demo_manager) \<subseteq> set (networks_saved demo_manager)"
    by (simp add: demo_manager_def)
  have a: "fst (save_network_files demo_env False (snd (new_network ''A'' demo_manager)) demo_disk) = None"
    using once by (metis fst_conv)
  have b: "save_network_files demo_env False
        (fst (snd (save_network_files demo_env False (snd (new_network ''A'' demo_manager)) demo_disk)))
        (snd (snd (save_network_files demo_env False (snd (new_network ''A'' demo_manager)) demo_disk)))
       = save_network_files demo_env False (snd (new_network ''A'' demo_manager)) demo_disk"
    using save_network_files_idempotent [THEN conjunct1, rule_format, OF once] once
    by (rule trans [OF _ sym])
  have c: "fst (save_network_files demo_env False demo_manager demo_disk) = None"
    using save_network_files_idempotent [THEN conjunct2, THEN conjunct1, rule_format, OF none,
        of demo_env False demo_disk]
    by (metis fst_conv)
  have unsaved: "\<forall>nm net. (nm, net) \<in> set (networks_active demo_mixed)
        \<and> nm \<notin> set (networks_saved demo_mixed)
      \<longrightarrow> (if name net = ''batch'' then (\<lambda>out d. (Inl ValueError, Map.empty))
           else net_save demo_env net) = net_save demo_env net"
    by (auto simp: demo_mixed_def demo_manager_def networks_saved_def)
  have e: "save_network_files demo_env_wiping False demo_mixed demo_disk
       = save_network_files demo_env False demo_mixed demo_disk"
    unfolding demo_env_wiping_def
    by (rule save_network_files_idempotent
        [where X = demo_env and m = demo_mixed
          and f = "\<lambda>net. if name net = ''batch'' then (\<lambda>out d. (Inl ValueError, Map.empty))
                       else net_save demo_env net",
         THEN conjunct2, THEN conjunct2, THEN mp, OF unsaved])
  have g: "snd (snd (save_network_files demo_env_wiping False demo_mixed demo_disk))
        ''/sim/network/batch_node_types.csv''
       = demo_disk ''/sim/network/batch_node_types.csv''"
    using demo_mixed_disk by (simp add: e)
  from a b c e g show ?thesis by (intro conjI)
qed

subsection \<open>Names in the active and the saved set\<close>

lemma distinct_dict_update:
  "distinct (map fst d) \<Longrightarrow> distinct (map fst (dict_update other d))"
  unfolding dict_update_def
  by (induction other arbitrary: d) (auto simp: AList.distinct_update)

lemma save_active_distinct:
  "save_active X tp np items m d = (r, m1, d1) \<Longrightarrow> distinct (map fst (nodes_dict m))
     \<Longrightarrow> distinct (map fst (nodes_dict m1))"
proof (induction items arbitrary: m d)
  case Nil
  then show ?case by simp
next
  case (Cons item items)
  obtain nm net where item: "item = (nm, net)" by (cases item)
  show ?case
  proof (cases "nm \<in> set (networks_saved m)")
    case True
    with Cons item show ?thesis by simp
  next
    case False
    obtain res d0 where ns: "net_save X net np d = (res, d0)" by (cases "net_save X net np d")
    show ?thesis
    proof (cases res)
      case (Inl e)
      with Cons.prems item False ns show ?thesis by simp
    next
      case (Inr pr)
      obtain nodes edge_dicts where pr: "pr = (nodes, edge_dicts)" by (cases pr)
      let ?m1 = "m\<lparr>nodes_dict := AList.update nm (trim_dict tp nodes) (nodes_dict m)\<rparr>"
      obtain er ed' where ae:
        "append_edgesets (map (trim_dict tp) edge_dicts) (edges_dict ?m1) = (er, ed')"
        by (cases "append_edgesets (map (trim_dict tp) edge_dicts) (edges_dict ?m1)")
      have dist: "distinct (map fst (nodes_dict (?m1\<lparr>edges_dict := ed'\<rparr>)))"
        using Cons.prems(2) by (simp add: AList.distinct_update)
      show ?thesis
      proof (cases er)
        case None
        with Cons.prems item False ns Inr pr ae
        have "save_active X tp np items (?m1\<lparr>edges_dict := ed'\<rparr>) d0 = (r, m1, d1)"
          by simp
        from Cons.IH [OF this dist] show ?thesis .
      next
        case (Some e)
        with Cons.prems(1) item False ns Inr pr ae
        have "m1 = ?m1\<lparr>edges_dict := ed'\<rparr>" by simp
        with dist show ?thesis by simp
      qed
    qed
  qed
qed

lemma import_nodesets_inv:
  "import_nodesets X d nodesets m = (r, m1) \<Longrightarrow>
     nodes_dict m1 = nodes_dict m
     \<and> (distinct (map fst (networks_active m)) \<longrightarrow> distinct (map fst (networks_active m1)))"
proof (induction nodesets arbitrary: m)
  case Nil
  then show ?case by simp
next
  case (Cons nodeset rest)
  show ?case
  proof (cases "nodes_net_name nodeset")
    case (Inl e)
    with Cons.prems show ?thesis by simp
  next
    case nm: (Inr nm)
    show ?thesis
    proof (cases "getitem nodeset ''nodes_file''")
      case (Inl e)
      with Cons.prems nm show ?thesis
        by (auto simp: new_network_def add_network_def Let_def AList.distinct_update)
    next
      case nf: (Inr nodes_file)
      show ?thesis
      proof (cases "getitem nodeset ''node_types_file''")
        case (Inl e)
        with Cons.prems nm nf show ?thesis
          by (auto simp: new_network_def add_network_def Let_def AList.distinct_update)
      next
        case (Inr node_types_file)
        let ?m2 = "(add_network (NetworkBuilder nm) m)
          \<lparr>networks_active :=
              AList.update nm (net_import_nodes X nodes_file node_types_file d (NetworkBuilder nm))
                (networks_active (add_network (NetworkBuilder nm) m))\<rparr>"
        from Cons.prems nm nf Inr
        have "import_nodesets X d rest ?m2 = (r, m1)"
          by (simp add: new_network_def Let_def)
        from Cons.IH [OF this] show ?thesis
          by (auto simp: add_network_def AList.distinct_update)
      qed
    qed
  qed
qed

lemma append_edgesets_total: "\<exists>er ed'. append_edgesets es ed = (er, ed')"
  by (cases "append_edgesets es ed") auto

lemma load_networks_inv:
  assumes "load_networks X import_nodes d m = (r, m1)"
    and "distinct (map fst (networks_active m))" and "distinct (map fst (nodes_dict m))"
  shows "distinct (map fst (networks_active m1)) \<and> distinct (map fst (nodes_dict m1))"
proof (cases "with_networks (configdict m)")
  case False
  with assms show ?thesis by (simp add: load_networks_def)
next
  case wn: True
  show ?thesis
  proof (cases "getitem (networks_block (configdict m)) ''nodes''")
    case (Inl e)
    with assms wn show ?thesis by (simp add: load_networks_def)
  next
    case nr: (Inr nodes_raw)
    show ?thesis
    proof (cases "getitem (networks_block (configdict m)) ''edges''")
      case (Inl e)
      with assms wn nr show ?thesis by (simp add: load_networks_def)
    next
      case er: (Inr edges_raw)
      obtain ri mi where imp:
        "(if import_nodes then import_nodesets X d nodes_raw m else (None, m)) = (ri, mi)"
        by (cases "if import_nodes then import_nodesets X d nodes_raw m else (None, m)")
      have mi: "distinct (map fst (networks_active mi)) \<and> distinct (map fst (nodes_dict mi))"
      proof (cases import_nodes)
        case True
        with imp have "import_nodesets X d nodes_raw m = (ri, mi)" by simp
        from import_nodesets_inv [OF this] assms(2,3) show ?thesis by simp
      next
        case False
        with imp assms(2,3) show ?thesis by simp
      qed
      show ?thesis
      proof (cases ri)
        case (Some e)
        with assms(1) wn nr er imp mi show ?thesis
          by (auto simp: load_networks_def)
      next
        case None
        show ?thesis
        proof (cases "nodes_by_name nodes_raw []")
          case (Inl e)
          with assms(1) wn nr er imp mi None show ?thesis
            by (auto simp: load_networks_def)
        next
          case (Inr nodes)
          obtain ea ed' where ae:
            "append_edgesets edges_raw (edges_dict (mi\<lparr>nodes_dict := dict_update nodes (nodes_dict mi)\<rparr>))
               = (ea, ed')"
            using append_edgesets_total by blast
          with assms(1) wn nr er imp None Inr
          have "m1 = mi\<lparr>nodes_dict := dict_update nodes (nodes_dict mi), edges_dict := ed'\<rparr>"
            by (auto simp: load_networks_def Let_def)
          with mi show ?thesis by (simp add: distinct_dict_update)
        qed
      qed
    qed
  qed
qed

lemma add_networks_inv:
  "distinct (map fst (networks_active m)) \<Longrightarrow>
     distinct (map fst (networks_active (add_networks nets m)))
     \<and> nodes_dict (add_networks nets m) = nodes_dict m"
  unfolding add_networks_def
  by (induction nets arbitrary: m) (auto simp: add_network_def AList.distinct_update)

lemma reachable_distinct:
  "reachable X m \<Longrightarrow>
     distinct (map fst (networks_active m)) \<and> distinct (map fst (nodes_dict m))"
proof (induction rule: reachable.induct)
  case (constructed doc cp cd sf)
  show ?case by simp
next
  case (after_new_network m net_name)
  then show ?case
    by (simp add: new_network_def add_network_def Let_def AList.distinct_update)
next
  case (after_add_network m net)
  then show ?case by (simp add: add_network_def AList.distinct_update)
next
  case (after_add_networks m nets)
  then show ?case by (simp add: add_networks_inv)
next
  case (after_load_networks m import_nodes d)
  obtain r m1 where l: "load_networks X import_nodes d m = (r, m1)"
    by (cases "load_networks X import_nodes d m")
  from load_networks_inv [OF l] after_load_networks.IH l show ?case by simp
next
  case (after_save_network_files m use_abs_paths d)
  let ?np = "abspath m network_dir"
  let ?tp = "trim_path X use_abs_paths ?np"
  obtain r m0 d0 where loop: "save_active X ?tp ?np (networks_active m) m d = (r, m0, d0)"
    by (cases "save_active X ?tp ?np (networks_active m) m d")
  from save_active_frame [OF loop] save_active_distinct [OF loop] after_save_network_files.IH
  have m0: "distinct (map fst (networks_active m0)) \<and> distinct (map fst (nodes_dict m0))"
    by simp
  show ?case
    using loop m0 by (cases r) (simp_all add: save_network_files_def Let_def)
qed

lemma distinct_count_le_one: "distinct xs \<Longrightarrow> count_list xs x \<le> 1"
  by (induction xs) auto

text \<open>C2 (as amended).  In every reachable state the names of the active set are pairwise
  different and the names of the saved set are pairwise different; a name can be in both
  sets, so \<^verbatim>\<open>networks\<close> lists a name at most twice.\<close>

theorem reachable_names:
  assumes "reachable X m"
  shows "distinct (map fst (networks_active m)) \<and> distinct (networks_saved m)
         \<and> count_list (networks m) n \<le> 2"
proof -
  from reachable_distinct [OF assms]
  have a: "distinct (map fst (networks_active m))" and s: "distinct (map fst (nodes_dict m))"
    by simp_all
  from distinct_count_le_one [OF a, of n] distinct_count_le_one [OF s, of n]
  have "count_list (networks m) n \<le> 2" by (simp add: networks_def)
  with a s show ?thesis by (simp add: networks_saved_def)
qed

lemma demo_saved_reachable:
  "reachable demo_env
     (fst (snd (save_network_files demo_env False (snd (new_network ''A'' demo_manager)) demo_disk)))"
proof -
  have "reachable demo_env demo_manager"
    unfolding demo_manager_def by (rule reachable.constructed)
  hence "reachable demo_env (snd (new_network ''A'' demo_manager))"
    by (rule reachable.after_new_network)
  thus ?thesis by (rule reachable.after_save_network_files)
qed

theorem reachable_names_witness:
  "reachable demo_env
     (fst (snd (save_network_files demo_env False (snd (new_network ''A'' demo_manager)) demo_disk)))
   \<and> count_list
       (networks (fst (snd (save_network_files demo_env False (snd (new_network ''A'' demo_manager))
          demo_disk)))) ''A'' = 2"
  using reachable_names [OF demo_saved_reachable, of "''A''"] demo_saved_reachable
  by (simp add: demo_saved_networks)

text \<open>The claim as stated fails after \<^verbatim>\<open>new_network("A")\<close> and
  \<^verbatim>\<open>save_network_files()\<close>: the state is reachable and \<^verbatim>\<open>networks\<close> is
  \<^verbatim>\<open>["A", "A"]\<close>.\<close>

theorem reachable_names_counterexample:
  "reachable demo_env
     (fst (snd (save_network_files demo_env False (snd (new_network ''A'' demo_manager)) demo_disk)))
   \<and> networks
       (fst (snd (save_network_files demo_env False (snd (new_network ''A'' demo_manager)) demo_disk)))
      = [''A'', ''A'']
   \<and> \<not> distinct
       (networks
         (fst (snd (save_network_files demo_env False (snd (new_network ''A'' demo_manager))
            demo_disk))))"
  using demo_saved_reachable by (simp add: demo_saved_networks)

subsection \<open>A config file is not inside its folder's output directory\<close>









subsection \<open>Creating a manager from a template\<close>



lemma path_join_empty [simp]: "path_join [] b = b"
  by (simp add: path_join_def)









subsection \<open>Copying a simulation\<close>

lemma clear_output_no_dir: "clear_output sm d (path_join (sim_folder sm) ''output'') \<noteq> Some Dir"
  by (auto simp: clear_output_def rmtree_ignore_errors_def rmtree_def under_def
      split: option.splits entry.splits)

text \<open>When \<^verbatim>\<open>save_copy\<close> returns a manager, no output directory is left in its
  folder.\<close>

lemma save_copy_output_cleared:
  assumes "save_copy X folder_path overwrite level m d = (Inr (Some sm), d')"
  shows "d' (path_join (sim_folder sm) ''output'') \<noteq> Some Dir"
proof -
  from assms obtain d2 where "d' = clear_output sm d2"
    by (auto simp: save_copy_def split: if_splits sum.splits prod.splits option.splits)
  thus ?thesis by (simp add: clear_output_no_dir)
qed

text \<open>C9.  When the target exists and overwrite is false, \<^verbatim>\<open>save_copy\<close> returns
  \<^verbatim>\<open>None\<close> and leaves the disk as it is, whatever the level.  That is its whole outcome:
  the \<^verbatim>\<open>Warning(...)\<close> of the source is built and dropped, so nothing is warned.\<close>

theorem save_copy_existing_target:
  "path_exists d (os_abspath X folder_path) \<longrightarrow>
     save_copy X folder_path False level m d = (Inr None, d)"
  by (simp add: save_copy_def)

theorem save_copy_existing_target_witness:
  "path_exists demo_disk (os_abspath demo_env ''/sim/network/'')
   \<and> save_copy demo_env ''/sim/network/'' False ''folder'' demo_manager demo_disk
       = (Inr None, demo_disk)"
proof -
  have ex: "path_exists demo_disk (os_abspath demo_env ''/sim/network/'')" by code_simp
  from save_copy_existing_target [of demo_disk demo_env "''/sim/network/''" "''folder''" demo_manager]
    ex
  show ?thesis by simp
qed

end
